theory Spec2Isabelle
  imports Main "HOL-Library.Sublist"
begin

section \<open>LTBox device controller: a shallow embedding\<close>

text \<open>
  The theory embeds the parts of \<^verbatim>\<open>ltbox/utils.py\<close> and \<^verbatim>\<open>ltbox/device.py\<close> that drive
  a device through ADB, Fastboot and Qualcomm EDL. Python's effects are explicit:
  a function of the program is a function from a \<open>world\<close> to a result and the world
  after it, a result being either a value or the exception that unwinds the call.
  Everything the program asks of its surroundings (child processes, the serial port
  enumeration, the file system, the operator at the keyboard, the clock) is answered by
  an oracle held in the world, and every such interaction is appended to the world's
  trace, so that what the program did can be read off afterwards.
\<close>

subsection \<open>Text\<close>

text \<open>
  Python strings are lists of 8-bit characters here. \<open>is_space\<close> is \<^verbatim>\<open>str.isspace\<close> on
  that range (the characters \<^verbatim>\<open>str.strip\<close> removes and the regular expression class
  \<^verbatim>\<open>\s\<close> matches): tab to carriage return, the four separators 28 to 31, the blank,
  NEL (133) and the no-break space (160).
\<close>

definition is_space :: "char \<Rightarrow> bool" where
  "is_space c = (let n = (of_char c :: nat) in
     (9 \<le> n \<and> n \<le> 13) \<or> (28 \<le> n \<and> n \<le> 32) \<or> n = 133 \<or> n = 160)"


text \<open>\<^verbatim>\<open>s.strip()\<close>: leading and trailing white space removed.\<close>

definition strip :: "string \<Rightarrow> string" where
  "strip s = rev (dropWhile is_space (rev (dropWhile is_space s)))"

text \<open>
  \<^verbatim>\<open>s.upper()\<close>: the ASCII letters are mapped to upper case. The other characters stay
  as they are; none of them, and none of their upper-case forms, is a character of the
  ASCII text the program looks for in the result.
\<close>

definition upper_char :: "char \<Rightarrow> char" where
  "upper_char c =
     (case map_of (zip ''abcdefghijklmnopqrstuvwxyz'' ''ABCDEFGHIJKLMNOPQRSTUVWXYZ'') c of
        Some u \<Rightarrow> u
      | None \<Rightarrow> c)"

definition upper :: "string \<Rightarrow> string" where
  "upper s = map upper_char s"

text \<open>\<^verbatim>\<open>needle in hay\<close> on strings: \<open>needle\<close> occurs in \<open>hay\<close> as a contiguous run.\<close>

fun str_in :: "string \<Rightarrow> string \<Rightarrow> bool" where
  "str_in needle [] = (needle = [])"
| "str_in needle (c # cs) = (prefix needle (c # cs) \<or> str_in needle cs)"

text \<open>\<^verbatim>\<open>sep.join(xs)\<close>.\<close>

fun join :: "string \<Rightarrow> string list \<Rightarrow> string" where
  "join sep [] = []"
| "join sep [x] = x"
| "join sep (x # y # ys) = x @ sep @ join sep (y # ys)"

text \<open>\<^verbatim>\<open>str(n)\<close> of an integer, in decimal.\<close>

fun str_nat :: "nat \<Rightarrow> string" where
  "str_nat n = (if n < 10 then [''0123456789'' ! n]
                else str_nat (n div 10) @ [''0123456789'' ! (n mod 10)])"

declare str_nat.simps [simp del]

definition str_int :: "int \<Rightarrow> string" where
  "str_int i = (if i < 0 then CHR ''-'' # str_nat (nat (- i)) else str_nat (nat i))"

text \<open>
  Python's truth test on an optional string (\<^verbatim>\<open>if s:\<close>): \<^verbatim>\<open>None\<close> and the empty
  string are false.
\<close>

fun truthy :: "string option \<Rightarrow> bool" where
  "truthy None = False"
| "truthy (Some s) = (s \<noteq> [])"

subsection \<open>Exceptions\<close>

text \<open>
  \<open>exn\<close> holds the exceptions of class \<^verbatim>\<open>Exception\<close> the program meets:
  \<^verbatim>\<open>FileNotFoundError\<close> with its \<^verbatim>\<open>filename\<close>, \<^verbatim>\<open>subprocess.CalledProcessError\<close> with
  the return code and the captured output, \<^verbatim>\<open>TypeError\<close>, \<^verbatim>\<open>AttributeError\<close>, \<^verbatim>\<open>KeyError\<close> with its key,
  \<^verbatim>\<open>EOFError\<close>, and \<open>OtherError\<close> for every other subclass of \<^verbatim>\<open>Exception\<close>
  (\<^verbatim>\<open>PermissionError\<close>, \<^verbatim>\<open>serial.SerialException\<close>, ...). An \<open>abort\<close> is whatever
  unwinds a call: such an exception, or one of the two that are not of class
  \<^verbatim>\<open>Exception\<close> and so pass every \<^verbatim>\<open>except Exception\<close>: \<^verbatim>\<open>KeyboardInterrupt\<close> and
  \<^verbatim>\<open>SystemExit\<close>.
\<close>

datatype exn =
    FileNotFoundError "string option"
  | CalledProcessError int "string option" "string option"
  | TypeError
  | AttributeError
  | KeyError string
  | EOFError
  | OtherError string

datatype abort = Raise exn | KeyboardInterrupt | SystemExit int

subsection \<open>The world\<close>

datatype stream = Stdout | Stderr

text \<open>
  \<open>pypath\<close> is a \<^verbatim>\<open>pathlib.Path\<close> as the program uses one: its string, its \<^verbatim>\<open>name\<close> and
  the string of its \<^verbatim>\<open>parent\<close>.
\<close>

record pypath =
  path_str :: string
  path_name :: string
  path_parent :: string

text \<open>
  A port as \<^verbatim>\<open>serial.tools.list_ports.comports()\<close> lists it. The program tests
  \<^verbatim>\<open>description\<close> and \<^verbatim>\<open>hwid\<close> for truth before it reads them, so both may be
  \<^verbatim>\<open>None\<close>.
\<close>

record port =
  device :: string
  description :: "string option"
  hwid :: "string option"

text \<open>
  What a child process does: it runs and exits with a return code, having written two
  texts to its standard output and standard error, or it cannot be started, because the
  executable is not found (\<^verbatim>\<open>FileNotFoundError\<close> with its \<^verbatim>\<open>filename\<close>) or for another
  reason (\<^verbatim>\<open>PermissionError\<close>, another \<^verbatim>\<open>OSError\<close>, ...).
\<close>

datatype launch_failure = NotFound "string option" | Failed string

datatype child = LaunchError launch_failure | Exited int string string

fun launch_exn :: "launch_failure \<Rightarrow> exn" where
  "launch_exn (NotFound f) = FileNotFoundError f"
| "launch_exn (Failed reason) = OtherError reason"

datatype keyboard = Line string | EndOfFile | CtrlC

text \<open>
  What the program prints is a \<open>message\<close>: \<open>Localised key\<close> is
  \<^verbatim>\<open>self.lang.get(key, default).format(...)\<close>, the text the language table gives for
  \<open>key\<close>; the model keeps the key, not the rendered text (the table is taken to hold
  well-formed templates, so rendering does not raise). \<open>Literal text\<close> is a text the
  program builds itself.
\<close>

datatype message = Localised string | Literal string

text \<open>
  The trace. \<open>Print s m\<close> is \<^verbatim>\<open>print(m, file=s)\<close>. \<open>Spawn argv path capture\<close> is a
  \<^verbatim>\<open>subprocess.run\<close> of \<open>argv\<close> with \<^verbatim>\<open>PATH\<close> set to \<open>path\<close>; \<open>ChildWrites s text\<close> is
  what a child writes to a stream it inherited from the program.
\<close>

datatype event =
    Print stream message
  | Spawn "string list" string bool
  | ChildWrites stream string
  | Comports
  | Sleep nat
  | Input
  | Exists string
  | Mkdir string
  | System string

text \<open>
  The oracles answer the \<open>n\<close>-th interaction of their kind: \<open>proc_oracle w n argv\<close> is
  what the child of the \<open>n\<close>-th \<^verbatim>\<open>subprocess.run\<close> does, \<open>comports_oracle w n\<close> what the
  \<open>n\<close>-th port enumeration returns or raises, \<open>sleep_oracle w n\<close> whether the operator
  presses Ctrl+C during the \<open>n\<close>-th \<^verbatim>\<open>time.sleep\<close>, \<open>input_oracle w n\<close> what the \<open>n\<close>-th
  \<^verbatim>\<open>input()\<close> reads, \<open>exists_oracle w n p\<close> whether the path \<open>p\<close> exists at the \<open>n\<close>-th
  \<^verbatim>\<open>Path.exists\<close>, \<open>mkdir_oracle w n p\<close> the exception of the \<open>n\<close>-th
  \<^verbatim>\<open>mkdir(exist_ok=True)\<close>, if any. Every call of the surroundings returns or raises: a
  child that never exits is outside the model. \<^verbatim>\<open>KeyboardInterrupt\<close> reaches the program
  where it waits for the operator or the clock, in \<^verbatim>\<open>time.sleep\<close> and \<^verbatim>\<open>input\<close>.
\<close>

record world =
  environ_PATH :: "string option"
  platform_system :: string
  proc_oracle :: "nat \<Rightarrow> string list \<Rightarrow> child"
  comports_oracle :: "nat \<Rightarrow> exn + port list"
  sleep_oracle :: "nat \<Rightarrow> bool"
  input_oracle :: "nat \<Rightarrow> keyboard"
  exists_oracle :: "nat \<Rightarrow> string \<Rightarrow> bool"
  mkdir_oracle :: "nat \<Rightarrow> string \<Rightarrow> exn option"
  trace :: "event list"

type_synonym 'a io = "world \<Rightarrow> (abort + 'a) \<times> world"

fun is_Spawn :: "event \<Rightarrow> bool" where
  "is_Spawn (Spawn argv p c) = True"
| "is_Spawn ev = False"

fun is_Comports :: "event \<Rightarrow> bool" where
  "is_Comports Comports = True"
| "is_Comports ev = False"

fun is_Sleep :: "event \<Rightarrow> bool" where
  "is_Sleep (Sleep n) = True"
| "is_Sleep ev = False"

fun is_Input :: "event \<Rightarrow> bool" where
  "is_Input Input = True"
| "is_Input ev = False"

fun is_Exists :: "event \<Rightarrow> bool" where
  "is_Exists (Exists p) = True"
| "is_Exists ev = False"

fun is_Mkdir :: "event \<Rightarrow> bool" where
  "is_Mkdir (Mkdir p) = True"
| "is_Mkdir ev = False"

definition count :: "(event \<Rightarrow> bool) \<Rightarrow> world \<Rightarrow> nat" where
  "count kind w = length (filter kind (trace w))"

text \<open>The argument vectors of the child processes run so far, in order.\<close>

fun spawned_of :: "event list \<Rightarrow> string list list" where
  "spawned_of [] = []"
| "spawned_of (Spawn argv p c # evs) = argv # spawned_of evs"
| "spawned_of (ev # evs) = spawned_of evs"

definition spawned :: "world \<Rightarrow> string list list" where
  "spawned w = spawned_of (trace w)"

definition emit :: "event \<Rightarrow> world \<Rightarrow> world" where
  "emit ev w = w\<lparr>trace := trace w @ [ev]\<rparr>"

subsection \<open>Sequencing and exception handlers\<close>

definition return :: "'a \<Rightarrow> 'a io" where
  "return x w = (Inr x, w)"

definition throw :: "abort \<Rightarrow> 'a io" where
  "throw a w = (Inl a, w)"

definition bind :: "'a io \<Rightarrow> ('a \<Rightarrow> 'b io) \<Rightarrow> 'b io" where
  "bind m f w = (case m w of (Inl a, w1) \<Rightarrow> (Inl a, w1) | (Inr x, w1) \<Rightarrow> f x w1)"

definition seq :: "unit io \<Rightarrow> 'b io \<Rightarrow> 'b io" where
  "seq m k = bind m (\<lambda>u. k)"

text \<open>\<^verbatim>\<open>try: m except Exception as e: h e\<close>: only an \<open>exn\<close> is caught.\<close>

definition except_Exception :: "'a io \<Rightarrow> (exn \<Rightarrow> 'a io) \<Rightarrow> 'a io" where
  "except_Exception m h w =
     (case m w of (Inl (Raise e), w1) \<Rightarrow> h e w1 | r \<Rightarrow> r)"

subsection \<open>The surroundings\<close>

definition print_to :: "stream \<Rightarrow> message \<Rightarrow> unit io" where
  "print_to s m w = (Inr (), emit (Print s m) w)"

definition say :: "stream \<Rightarrow> string \<Rightarrow> unit io" where
  "say s key = print_to s (Localised key)"

definition print_text :: "stream \<Rightarrow> string \<Rightarrow> unit io" where
  "print_text s text = print_to s (Literal text)"

text \<open>\<^verbatim>\<open>p.exists()\<close>.\<close>

definition path_exists :: "pypath \<Rightarrow> bool io" where
  "path_exists p w =
     (Inr (exists_oracle w (count is_Exists w) (path_str p)), emit (Exists (path_str p)) w)"

text \<open>\<^verbatim>\<open>p.mkdir(exist_ok=True)\<close>.\<close>

definition mkdir_exist_ok :: "pypath \<Rightarrow> unit io" where
  "mkdir_exist_ok p w =
     (case mkdir_oracle w (count is_Mkdir w) (path_str p) of
        Some e \<Rightarrow> (Inl (Raise e), emit (Mkdir (path_str p)) w)
      | None \<Rightarrow> (Inr (), emit (Mkdir (path_str p)) w))"

text \<open>\<^verbatim>\<open>time.sleep(n)\<close>.\<close>

definition sleep :: "nat \<Rightarrow> unit io" where
  "sleep n w =
     (if sleep_oracle w (count is_Sleep w) then (Inl KeyboardInterrupt, emit (Sleep n) w)
      else (Inr (), emit (Sleep n) w))"

text \<open>\<^verbatim>\<open>input()\<close>.\<close>

definition input :: "string io" where
  "input w =
     (case input_oracle w (count is_Input w) of
        Line s \<Rightarrow> (Inr s, emit Input w)
      | EndOfFile \<Rightarrow> (Inl (Raise EOFError), emit Input w)
      | CtrlC \<Rightarrow> (Inl KeyboardInterrupt, emit Input w))"

text \<open>\<^verbatim>\<open>serial.tools.list_ports.comports()\<close>.\<close>

definition comports :: "port list io" where
  "comports w =
     (case comports_oracle w (count is_Comports w) of
        Inl e \<Rightarrow> (Inl (Raise e), emit Comports w)
      | Inr ps \<Rightarrow> (Inr ps, emit Comports w))"

text \<open>\<^verbatim>\<open>os.system(cmd)\<close>.\<close>

definition os_system :: "string \<Rightarrow> unit io" where
  "os_system cmd w = (Inr (), emit (System cmd) w)"

text \<open>
  \<^verbatim>\<open>subprocess.run(argv, check=check, capture_output=capture, text=True, env=env)\<close>, the
  object it returns being a \<open>completed\<close>. With \<^verbatim>\<open>capture_output\<close> the child writes into
  pipes and the texts are the object's \<^verbatim>\<open>stdout\<close> and \<^verbatim>\<open>stderr\<close>; without it the child
  inherits the program's own streams, writes there itself, and both attributes are
  \<^verbatim>\<open>None\<close>. With \<^verbatim>\<open>check\<close>, a return code other than 0 raises \<^verbatim>\<open>CalledProcessError\<close>,
  which carries the same two attributes.
\<close>

record completed =
  returncode :: int
  stdout :: "string option"
  stderr :: "string option"

definition subprocess_run :: "string list \<Rightarrow> bool \<Rightarrow> bool \<Rightarrow> string \<Rightarrow> completed io" where
  "subprocess_run argv check capture env_path w =
     (let w1 = emit (Spawn argv env_path capture) w in
      case proc_oracle w (count is_Spawn w) argv of
        LaunchError f \<Rightarrow> (Inl (Raise (launch_exn f)), w1)
      | Exited rc out err \<Rightarrow>
          (let w2 = (if capture then w1
                     else emit (ChildWrites Stderr err) (emit (ChildWrites Stdout out) w1));
               so = (if capture then Some out else None);
               se = (if capture then Some err else None)
           in if check \<and> rc \<noteq> 0 then (Inl (Raise (CalledProcessError rc so se)), w2)
              else (Inr \<lparr>returncode = rc, stdout = so, stderr = se\<rparr>, w2)))"

subsection \<open>The constants of \<^verbatim>\<open>ltbox.constants\<close>\<close>

text \<open>
  \<^verbatim>\<open>ltbox/constants.py\<close> is not among the sources; the paths it defines are parameters
  of the model, as is \<^verbatim>\<open>os.pathsep\<close>.
\<close>

record constants =
  ADB_EXE :: pypath
  FASTBOOT_EXE :: pypath
  QSAHARASERVER_EXE :: pypath
  FH_LOADER_EXE :: pypath
  TOOLS_DIR :: pypath
  DOWNLOAD_DIR :: pypath
  IMAGE_DIR :: pypath
  EDL_LOADER_FILENAME :: string
  EDL_LOADER_FILE :: pypath
  pathsep :: string

section \<open>\<^verbatim>\<open>ltbox/utils.py\<close>\<close>

subsection \<open>\<^verbatim>\<open>run_command\<close>\<close>

text \<open>
  \<^verbatim>\<open>run_command(command, shell=False, check=True, env=None, capture=False)\<close>. Every caller
  in \<^verbatim>\<open>device.py\<close> leaves \<^verbatim>\<open>shell\<close> and \<^verbatim>\<open>env\<close> at their defaults, so the environment
  is a copy of \<^verbatim>\<open>os.environ\<close>, and \<^verbatim>\<open>env['PATH']\<close> raises \<^verbatim>\<open>KeyError\<close> when the variable
  is not set (before the \<^verbatim>\<open>try\<close>).
\<close>

definition echo :: "stream \<Rightarrow> string option \<Rightarrow> unit io" where
  "echo s t = (if truthy t then print_text s (strip (the t)) else return ())"

definition echo_labelled :: "string \<Rightarrow> string option \<Rightarrow> unit io" where
  "echo_labelled label t =
     (if truthy t then print_text Stderr (label @ [CHR 0x0A] @ strip (the t)) else return ())"

definition filename_str :: "string option \<Rightarrow> string" where
  "filename_str f = (case f of None \<Rightarrow> ''None'' | Some s \<Rightarrow> s)"

definition run_command_handler :: "string list \<Rightarrow> exn \<Rightarrow> completed io" where
  "run_command_handler command e =
     (case e of
        FileNotFoundError f \<Rightarrow>
          seq (print_text Stderr (''Error: Command not found - '' @ filename_str f))
              (throw (Raise e))
      | CalledProcessError rc so se \<Rightarrow>
          seq (print_text Stderr (''Error executing command: '' @ join '' '' command))
         (seq (print_text Stderr (''Return code: '' @ str_int rc))
         (seq (echo_labelled ''Stdout:'' so)
         (seq (echo_labelled ''Stderr:'' se)
              (throw (Raise e)))))
      | _ \<Rightarrow> throw (Raise e))"

text \<open>Line 17: the two tool directories, put before the \<^verbatim>\<open>PATH\<close> the program runs with.\<close>

definition tool_path :: "constants \<Rightarrow> string \<Rightarrow> string" where
  "tool_path k p = path_str (TOOLS_DIR k) @ pathsep k @ path_str (DOWNLOAD_DIR k) @ pathsep k @ p"

definition run_command :: "constants \<Rightarrow> string list \<Rightarrow> bool \<Rightarrow> bool \<Rightarrow> completed io" where
  "run_command k command check capture w =
     (case environ_PATH w of
        None \<Rightarrow> (Inl (Raise (KeyError ''PATH'')), w)
      | Some p \<Rightarrow>
          except_Exception
            (bind (subprocess_run command check capture (tool_path k p))
               (\<lambda>process.
                  seq (if \<not> capture then seq (echo Stdout (stdout process)) (echo Stderr (stderr process))
                       else return ())
                      (return process)))
            (run_command_handler command) w)"

subsection \<open>\<^verbatim>\<open>wait_for_files\<close>\<close>

text \<open>
  \<^verbatim>\<open>directory / file\<close> for a file name of one component, \<open>sep\<close> being the separator
  between the two.
\<close>

definition joinpath :: "string \<Rightarrow> pypath \<Rightarrow> string \<Rightarrow> pypath" where
  "joinpath sep d f = \<lparr>path_str = path_str d @ sep @ f, path_name = f, path_parent = path_str d\<rparr>"

text \<open>The \<^verbatim>\<open>for\<close> loop of lines 63 to 66: the required files that do not exist, in order.\<close>

fun missing_files :: "pypath \<Rightarrow> string list \<Rightarrow> string list io" where
  "missing_files d [] = return []"
| "missing_files d (f # fs) =
     bind (path_exists (joinpath ''/'' d f)) (\<lambda>found.
     bind (missing_files d fs) (\<lambda>rest.
       return (if found then rest else f # rest)))"

fun print_each :: "string list \<Rightarrow> unit io" where
  "print_each [] = return ()"
| "print_each (f # fs) = seq (print_text Stdout ('' - '' @ f)) (print_each fs)"

definition except_EOFError :: "'a io \<Rightarrow> 'a io \<Rightarrow> 'a io" where
  "except_EOFError m h w =
     (case m w of (Inl (Raise EOFError), w1) \<Rightarrow> h w1 | r \<Rightarrow> r)"

text \<open>One pass of the \<^verbatim>\<open>while True\<close> loop (lines 61 to 85): \<open>True\<close> when it returns.\<close>

definition wait_for_files_round :: "pypath \<Rightarrow> string list \<Rightarrow> message \<Rightarrow> bool io" where
  "wait_for_files_round directory required_files prompt_message =
     bind (missing_files directory required_files) (\<lambda>missing.
       if missing = [] then return True
       else
         seq (\<lambda>w. (if platform_system w = ''Windows'' then os_system ''cls'' else os_system ''clear'') w)
        (seq (print_text Stdout ''--- WAITING FOR FILES ---'')
        (seq (print_to Stdout prompt_message)
        (seq (print_text Stdout (CHR 0x0A # ''Please place the following file(s) in the '' @ [CHR 0x27]
                                  @ path_name directory @ [CHR 0x27] @ '' folder:''))
        (seq (print_each missing)
        (seq (print_text Stdout (CHR 0x0A # ''Press Enter when ready...''))
        (seq (except_EOFError (bind input (\<lambda>line. return ())) (throw (SystemExit 1)))
             (return False))))))))"

partial_function (option) wait_for_files_loop ::
  "pypath \<Rightarrow> string list \<Rightarrow> message \<Rightarrow> world \<Rightarrow> ((abort + bool) \<times> world) option" where
  "wait_for_files_loop directory required_files prompt_message w =
     (case wait_for_files_round directory required_files prompt_message w of
        (Inl a, w1) \<Rightarrow> Some (Inl a, w1)
      | (Inr finished, w1) \<Rightarrow>
          if finished then Some (Inr True, w1)
          else wait_for_files_loop directory required_files prompt_message w1)"

text \<open>A function that may loop for ever returns \<open>None\<close> when it does.\<close>

type_synonym 'a pio = "world \<Rightarrow> ((abort + 'a) \<times> world) option"

definition lift :: "'a io \<Rightarrow> 'a pio" where
  "lift m w = Some (m w)"

definition pbind :: "'a pio \<Rightarrow> ('a \<Rightarrow> 'b pio) \<Rightarrow> 'b pio" where
  "pbind m f w =
     (case m w of
        None \<Rightarrow> None
      | Some (Inl a, w1) \<Rightarrow> Some (Inl a, w1)
      | Some (Inr x, w1) \<Rightarrow> f x w1)"

definition wait_for_files :: "pypath \<Rightarrow> string list \<Rightarrow> message \<Rightarrow> bool pio" where
  "wait_for_files directory required_files prompt_message =
     pbind (lift (mkdir_exist_ok directory)) (\<lambda>u.
       wait_for_files_loop directory required_files prompt_message)"

text \<open>
  Calling a Python function binds the arguments to its parameters first.
  \<^verbatim>\<open>def wait_for_files(directory, required_files, prompt_message)\<close> has three parameters
  and no default: a call with \<open>npos\<close> positional arguments and the keywords \<open>kws\<close> binds
  when the keywords are exactly the parameters the positional arguments leave, and
  raises \<^verbatim>\<open>TypeError\<close> otherwise, before the body runs.
\<close>

definition wait_for_files_params :: "string list" where
  "wait_for_files_params = [''directory'', ''required_files'', ''prompt_message'']"

definition binds :: "string list \<Rightarrow> nat \<Rightarrow> string list \<Rightarrow> bool" where
  "binds params npos kws =
     (npos \<le> length params \<and> distinct kws \<and> set kws = set (drop npos params))"

text \<open>
  \<^verbatim>\<open>wait_for_files(directory, required_files, prompt_message, kw1=..., ...)\<close>: a call with
  three positional arguments and the keywords \<open>kws\<close>.
\<close>

definition call_wait_for_files ::
  "pypath \<Rightarrow> string list \<Rightarrow> message \<Rightarrow> string list \<Rightarrow> bool pio" where
  "call_wait_for_files directory required_files prompt_message kws =
     (if binds wait_for_files_params 3 kws
      then wait_for_files directory required_files prompt_message
      else lift (throw (Raise TypeError)))"

section \<open>\<^verbatim>\<open>ltbox/device.py\<close>: \<^verbatim>\<open>DeviceController\<close>\<close>

text \<open>
  The controller's fields. (\<^verbatim>\<open>self.lang\<close>, the language table, only chooses the text of
  the messages.)
\<close>

record controller =
  skip_adb :: bool
  edl_port :: "string option"

definition unless :: "bool \<Rightarrow> unit io \<Rightarrow> unit io" where
  "unless b m = (if \<not> b then m else return ())"

subsection \<open>ADB\<close>

definition wait_for_adb :: "constants \<Rightarrow> controller \<Rightarrow> unit io" where
  "wait_for_adb k c =
     (if skip_adb c then say Stdout ''device_skip_adb''
      else
        seq (say Stdout ''device_wait_adb_title'')
       (seq (say Stdout ''device_enable_usb_debug'')
       (seq (say Stdout ''device_usb_prompt_appear'')
       (seq (say Stdout ''device_check_always_allow'')
            (except_Exception
               (bind (run_command k [path_str (ADB_EXE k), ''wait-for-device''] True False) (\<lambda>r.
                  say Stdout ''device_adb_connected''))
               (\<lambda>e. seq (say Stderr ''device_err_wait_adb'') (throw (Raise e))))))))"

text \<open>
  \<^verbatim>\<open>s.strip()\<close> where \<open>s\<close> may be \<^verbatim>\<open>None\<close>, which has no such attribute.
\<close>

definition strip_of :: "string option \<Rightarrow> string io" where
  "strip_of s = (case s of None \<Rightarrow> throw (Raise AttributeError) | Some t \<Rightarrow> return (strip t))"





definition reboot_to_edl :: "constants \<Rightarrow> controller \<Rightarrow> unit io" where
  "reboot_to_edl k c =
     seq (wait_for_adb k c)
       (if skip_adb c then say Stdout ''device_manual_edl_req''
        else
          seq (say Stdout ''device_reboot_edl_adb'')
            (except_Exception
               (bind (run_command k [path_str (ADB_EXE k), ''reboot'', ''edl''] True False) (\<lambda>r.
                  say Stdout ''device_reboot_edl_sent''))
               (\<lambda>e. seq (say Stderr ''device_err_reboot'') (say Stdout ''device_manual_edl_fail''))))"


subsection \<open>Fastboot\<close>

definition check_fastboot_device :: "constants \<Rightarrow> controller \<Rightarrow> bool \<Rightarrow> bool io" where
  "check_fastboot_device k c silent =
     seq (unless silent (say Stdout ''device_check_fastboot''))
       (except_Exception
          (bind (run_command k [path_str (FASTBOOT_EXE k), ''devices''] False True) (\<lambda>result.
           bind (strip_of (stdout result)) (\<lambda>output.
             if output \<noteq> []
             then seq (unless silent (say Stdout ''device_found_fastboot'')) (return True)
             else seq (unless silent (seq (say Stdout ''device_no_fastboot'')
                                          (say Stdout ''device_connect_fastboot'')))
                      (return False))))
          (\<lambda>e. seq (unless silent (say Stderr ''device_err_check_fastboot'')) (return False)))"

definition except_KeyboardInterrupt :: "'a io \<Rightarrow> 'a io \<Rightarrow> 'a io" where
  "except_KeyboardInterrupt m h w =
     (case m w of (Inl KeyboardInterrupt, w1) \<Rightarrow> h w1 | r \<Rightarrow> r)"

text \<open>The body of the \<^verbatim>\<open>while\<close> loop of \<^verbatim>\<open>wait_for_fastboot\<close> (lines 147 to 152).\<close>

definition wait_for_fastboot_body :: "unit io" where
  "wait_for_fastboot_body =
     seq (say Stdout ''device_wait_fastboot_loop'')
       (except_KeyboardInterrupt (sleep 2)
          (seq (say Stdout ''device_wait_fastboot_cancel'') (throw KeyboardInterrupt)))"

text \<open>The \<^verbatim>\<open>while not self.check_fastboot_device(silent=True)\<close> loop (lines 146 to 152).\<close>

partial_function (option) wait_for_fastboot_loop ::
  "constants \<Rightarrow> controller \<Rightarrow> world \<Rightarrow> ((abort + unit) \<times> world) option" where
  "wait_for_fastboot_loop k c w =
     (case check_fastboot_device k c True w of
        (Inl a, w1) \<Rightarrow> Some (Inl a, w1)
      | (Inr found, w1) \<Rightarrow>
          if \<not> found
          then (case wait_for_fastboot_body w1 of
                  (Inl a, w2) \<Rightarrow> Some (Inl a, w2)
                | (Inr u, w2) \<Rightarrow> wait_for_fastboot_loop k c w2)
          else Some (Inr (), w1))"

definition wait_for_fastboot :: "constants \<Rightarrow> controller \<Rightarrow> bool pio" where
  "wait_for_fastboot k c =
     pbind (lift (seq (say Stdout ''device_wait_fastboot_title'') (check_fastboot_device k c True)))
       (\<lambda>found.
          if found then lift (seq (say Stdout ''device_fastboot_connected'') (return True))
          else pbind (wait_for_fastboot_loop k c) (\<lambda>u.
                 lift (seq (say Stdout ''device_fastboot_connected'') (return True))))"






subsection \<open>EDL\<close>

text \<open>The test of line 214 and 215, with Python's truth of \<^verbatim>\<open>None\<close> and of the empty string.\<close>

definition is_qualcomm_port :: "port \<Rightarrow> bool" where
  "is_qualcomm_port p =
     ((case description p of
         None \<Rightarrow> False
       | Some d \<Rightarrow> d \<noteq> [] \<and> str_in ''Qualcomm'' d \<and> str_in ''9008'' d)
      \<or>
      (case hwid p of
         None \<Rightarrow> False
       | Some h \<Rightarrow> h \<noteq> [] \<and> str_in ''VID:PID=05C6:9008'' (upper h)))"

text \<open>The \<^verbatim>\<open>for port in ports\<close> loop: the device of the first port that passes the test.\<close>

fun scan_ports :: "port list \<Rightarrow> string option" where
  "scan_ports [] = None"
| "scan_ports (p # ps) = (if is_qualcomm_port p then Some (device p) else scan_ports ps)"

definition check_edl_device :: "controller \<Rightarrow> bool \<Rightarrow> string option io" where
  "check_edl_device c silent =
     seq (unless silent (say Stdout ''device_check_edl''))
       (except_Exception
          (bind comports (\<lambda>ports.
             case scan_ports ports of
               Some dev \<Rightarrow> seq (unless silent (say Stdout ''device_found_edl'')) (return (Some dev))
             | None \<Rightarrow> seq (unless silent (seq (say Stdout ''device_no_edl'')
                                               (say Stdout ''device_connect_edl'')))
                           (return None)))
          (\<lambda>e. seq (unless silent (say Stderr ''device_err_check_edl'')) (return None)))"

text \<open>The body of the \<^verbatim>\<open>while\<close> loop of \<^verbatim>\<open>wait_for_edl\<close> (lines 239 to 244).\<close>

definition wait_for_edl_body :: "unit io" where
  "wait_for_edl_body =
     seq (say Stdout ''device_wait_edl_loop'')
       (except_KeyboardInterrupt (sleep 2)
          (seq (say Stdout ''device_wait_edl_cancel'') (throw KeyboardInterrupt)))"

text \<open>
  The \<^verbatim>\<open>while not (port_name := self.check_edl_device(silent=True))\<close> loop (lines 238 to
  244); it returns \<^verbatim>\<open>port_name\<close>.
\<close>

partial_function (option) wait_for_edl_loop ::
  "controller \<Rightarrow> world \<Rightarrow> ((abort + string) \<times> world) option" where
  "wait_for_edl_loop c w =
     (case check_edl_device c True w of
        (Inl a, w1) \<Rightarrow> Some (Inl a, w1)
      | (Inr port_name, w1) \<Rightarrow>
          if \<not> truthy port_name
          then (case wait_for_edl_body w1 of
                  (Inl a, w2) \<Rightarrow> Some (Inl a, w2)
                | (Inr u, w2) \<Rightarrow> wait_for_edl_loop c w2)
          else Some (Inr (the port_name), w1))"

definition wait_for_edl :: "controller \<Rightarrow> string pio" where
  "wait_for_edl c =
     pbind (lift (seq (say Stdout ''device_wait_edl_title'') (check_edl_device c False)))
       (\<lambda>port_name.
          if truthy port_name then lift (return (the port_name))
          else pbind (wait_for_edl_loop c) (\<lambda>found.
                 lift (seq (say Stdout ''device_edl_connected'') (return found))))"

text \<open>Lines 249 to 260 of \<^verbatim>\<open>setup_edl_connection\<close>: reboot to EDL, or skip it.\<close>

definition setup_edl_reboot :: "constants \<Rightarrow> controller \<Rightarrow> unit io" where
  "setup_edl_reboot k c =
     bind (check_edl_device c True) (\<lambda>found.
       if truthy found then say Stdout ''device_already_edl''
       else
         seq (unless (skip_adb c) (wait_for_adb k c))
        (seq (say Stdout ''device_edl_setup_title'')
        (seq (reboot_to_edl k c)
             (unless (skip_adb c) (seq (say Stdout ''device_wait_10s_edl'') (sleep 10))))))"

text \<open>
  \<^verbatim>\<open>setup_edl_connection\<close> returns the port and stores it in \<^verbatim>\<open>self.edl_port\<close>: the
  value is the port with the controller as the call leaves it. The call of line 270
  passes three positional arguments and the keyword \<^verbatim>\<open>lang\<close>.
\<close>

definition setup_edl_connection :: "constants \<Rightarrow> controller \<Rightarrow> (string \<times> controller) pio" where
  "setup_edl_connection k c =
     pbind (lift (setup_edl_reboot k c)) (\<lambda>u.
     pbind (lift (seq (say Stdout ''device_wait_loader_title'') (mkdir_exist_ok (IMAGE_DIR k)))) (\<lambda>u.
     pbind (call_wait_for_files (IMAGE_DIR k) [EDL_LOADER_FILENAME k]
              (Localised ''device_loader_prompt'') [''lang'']) (\<lambda>found.
     pbind (lift (say Stdout ''device_loader_found'')) (\<lambda>u.
     pbind (wait_for_edl c) (\<lambda>port.
       lift (seq (say Stdout ''device_edl_setup_done'')
                 (return (port, c\<lparr>edl_port := Some port\<rparr>))))))))"

subsection \<open>Sahara and Firehose\<close>

text \<open>\<^verbatim>\<open>f"\\\\.\\{port}"\<close>: two backslashes, a dot, a backslash, the port.\<close>

definition port_str :: "string \<Rightarrow> string" where
  "port_str port = [CHR 0x5C, CHR 0x5C, CHR ''.'', CHR 0x5C] @ port"

definition cmd_sahara :: "constants \<Rightarrow> pypath \<Rightarrow> string \<Rightarrow> string list" where
  "cmd_sahara k loader_path port =
     [path_str (QSAHARASERVER_EXE k),
      ''-p'', port_str port,
      ''-s'', ''13:'' @ path_str loader_path]"

definition except_CalledProcessError :: "'a io \<Rightarrow> (exn \<Rightarrow> 'a io) \<Rightarrow> 'a io" where
  "except_CalledProcessError m h w =
     (case m w of
        (Inl (Raise (CalledProcessError rc out err)), w1) \<Rightarrow> h (CalledProcessError rc out err) w1
      | r \<Rightarrow> r)"

definition load_firehose_programmer :: "constants \<Rightarrow> controller \<Rightarrow> pypath \<Rightarrow> string \<Rightarrow> unit io" where
  "load_firehose_programmer k c loader_path port =
     bind (path_exists (QSAHARASERVER_EXE k)) (\<lambda>found.
       if \<not> found then throw (Raise (FileNotFoundError None))
       else
         seq (say Stdout ''device_upload_programmer'')
           (except_CalledProcessError
              (bind (run_command k (cmd_sahara k loader_path port) True False) (\<lambda>r. return ()))
              (\<lambda>e. seq (say Stderr ''device_fatal_programmer'')
                   (seq (say Stderr ''device_fatal_causes'')
                   (seq (say Stderr ''device_cause_1'')
                   (seq (say Stderr ''device_cause_2'')
                   (seq (say Stderr ''device_cause_3'')
                        (throw (Raise e)))))))))"

definition cmd_fh :: "constants \<Rightarrow> pypath \<Rightarrow> string \<Rightarrow> pypath list \<Rightarrow> pypath list \<Rightarrow> string
                       \<Rightarrow> string list" where
  "cmd_fh k loader_path memory_type raw_xmls patch_xmls port =
     [path_str (FH_LOADER_EXE k),
      ''--port='' @ port_str port,
      ''--search_path='' @ path_parent loader_path,
      ''--sendxml='' @ join '','' (map path_name raw_xmls),
      ''--sendxml='' @ join '','' (map path_name patch_xmls),
      ''--setactivepartition=1'',
      ''--memoryname='' @ memory_type,
      ''--showpercentagecomplete'',
      ''--zlpawarehost=1'',
      ''--noprompt'']"

text \<open>
  Lines 407 to 409 of \<^verbatim>\<open>edl_rawprogram\<close>: both tools must exist (\<^verbatim>\<open>or\<close> does not look
  for the second when the first is missing).
\<close>

definition edl_rawprogram_tools :: "constants \<Rightarrow> unit io" where
  "edl_rawprogram_tools k =
     bind (path_exists (QSAHARASERVER_EXE k)) (\<lambda>sahara.
     bind (if \<not> sahara then return True
           else bind (path_exists (FH_LOADER_EXE k)) (\<lambda>fh. return (\<not> fh))) (\<lambda>missing.
       if missing
       then seq (say Stdout ''device_err_tools_missing'') (throw (Raise (FileNotFoundError None)))
       else return ()))"

definition edl_rawprogram ::
  "constants \<Rightarrow> controller \<Rightarrow> pypath \<Rightarrow> string \<Rightarrow> pypath list \<Rightarrow> pypath list \<Rightarrow> string \<Rightarrow> unit io" where
  "edl_rawprogram k c loader_path memory_type raw_xmls patch_xmls port =
     seq (edl_rawprogram_tools k)
    (seq (say Stdout ''device_step1_load'')
    (seq (load_firehose_programmer k c loader_path port)
    (seq (say Stdout ''device_step2_flash'')
         (bind (run_command k (cmd_fh k loader_path memory_type raw_xmls patch_xmls port) True False)
            (\<lambda>r. return ())))))"

section \<open>What the detectors answer\<close>

text \<open>
  The port test in the words of the specification: the description contains both
  \<^verbatim>\<open>Qualcomm\<close> and \<^verbatim>\<open>9008\<close>, or the hardware id, in upper case, contains
  \<^verbatim>\<open>VID:PID=05C6:9008\<close>; \<open>sublist xs ys\<close> says that \<open>xs\<close> occurs in \<open>ys\<close> as a
  contiguous run.
\<close>

definition edl_port_spec :: "port \<Rightarrow> bool" where
  "edl_port_spec p =
     ((\<exists>d. description p = Some d \<and> sublist ''Qualcomm'' d \<and> sublist ''9008'' d)
      \<or> (\<exists>h. hwid p = Some h \<and> sublist ''VID:PID=05C6:9008'' (upper h)))"

text \<open>
  What the \<open>n\<close>-th port enumeration of a world makes an EDL check answer, and what
  the \<open>n\<close>-th child process makes a Fastboot check answer when that child is
  \<^verbatim>\<open>fastboot devices\<close>.
\<close>

definition nth_edl_check :: "world \<Rightarrow> nat \<Rightarrow> string option" where
  "nth_edl_check w n = (case comports_oracle w n of Inl e \<Rightarrow> None | Inr ps \<Rightarrow> scan_ports ps)"

definition nth_fastboot_check :: "constants \<Rightarrow> world \<Rightarrow> nat \<Rightarrow> bool" where
  "nth_fastboot_check k w n =
     (case environ_PATH w of
        None \<Rightarrow> False
      | Some p \<Rightarrow>
          (case proc_oracle w n [path_str (FASTBOOT_EXE k), ''devices''] of
             LaunchError f \<Rightarrow> False
           | Exited rc out err \<Rightarrow> strip out \<noteq> []))"

text \<open>
  The answers of the next \<open>n\<close> checks of a world, and whether the operator interrupts
  each of its next \<open>n\<close> sleeps.
\<close>

definition next_edl_checks :: "world \<Rightarrow> nat \<Rightarrow> string option list" where
  "next_edl_checks w n = map (\<lambda>i. nth_edl_check w (count is_Comports w + i)) [0..<n]"

definition next_fastboot_checks :: "constants \<Rightarrow> world \<Rightarrow> nat \<Rightarrow> bool list" where
  "next_fastboot_checks k w n = map (\<lambda>i. nth_fastboot_check k w (count is_Spawn w + i)) [0..<n]"

definition next_sleeps :: "world \<Rightarrow> nat \<Rightarrow> bool list" where
  "next_sleeps w n = map (\<lambda>j. sleep_oracle w (count is_Sleep w + j)) [0..<n]"

text \<open>What a call that may loop for ever returned, and the trace it left.\<close>

definition outcome :: "((abort + 'a) \<times> world) option \<Rightarrow> (abort + 'a) option" where
  "outcome r = map_option fst r"

definition final_trace :: "((abort + 'a) \<times> world) option \<Rightarrow> event list" where
  "final_trace r = (case r of None \<Rightarrow> [] | Some (x, w) \<Rightarrow> trace w)"

section \<open>A concrete installation\<close>

text \<open>
  Constants and surroundings to evaluate the model on: the tools are installed,
  \<^verbatim>\<open>PATH\<close> is set, every child exits with code 0 and writes nothing, no port is
  connected, and the operator presses Enter when asked. The examples below change one
  oracle at a time.
\<close>

definition mk_path :: "string \<Rightarrow> string \<Rightarrow> pypath" where
  "mk_path dir name = \<lparr>path_str = dir @ ''/'' @ name, path_name = name, path_parent = dir\<rparr>"

definition example_constants :: constants where
  "example_constants =
     \<lparr>ADB_EXE = mk_path ''tools/dl/platform-tools'' ''adb.exe'',
      FASTBOOT_EXE = mk_path ''tools/dl/platform-tools'' ''fastboot.exe'',
      QSAHARASERVER_EXE = mk_path ''tools'' ''Qsaharaserver.exe'',
      FH_LOADER_EXE = mk_path ''tools'' ''fh_loader.exe'',
      TOOLS_DIR = mk_path ''.'' ''tools'',
      DOWNLOAD_DIR = mk_path ''tools'' ''dl'',
      IMAGE_DIR = mk_path ''.'' ''image'',
      EDL_LOADER_FILENAME = ''xbl_s_devprg_ns.melf'',
      EDL_LOADER_FILE = mk_path ''image'' ''xbl_s_devprg_ns.melf'',
      pathsep = '';''\<rparr>"

definition example_world :: world where
  "example_world =
     \<lparr>environ_PATH = Some ''C:/Windows'',
      platform_system = ''Windows'',
      proc_oracle = (\<lambda>n argv. Exited 0 [] []),
      comports_oracle = (\<lambda>n. Inr []),
      sleep_oracle = (\<lambda>n. False),
      input_oracle = (\<lambda>n. Line []),
      exists_oracle = (\<lambda>n p. True),
      mkdir_oracle = (\<lambda>n p. None),
      trace = []\<rparr>"

definition example_controller :: controller where
  "example_controller = \<lparr>skip_adb = False, edl_port = None\<rparr>"

definition adb_port :: port where
  "adb_port = \<lparr>device = ''COM3'', description = Some ''Android ADB Interface (COM3)'',
                hwid = Some ''USB VID:PID=18D1:4EE0''\<rparr>"

definition lower_case_description_port :: port where
  "lower_case_description_port =
     \<lparr>device = ''COM4'', description = Some ''qualcomm hs-usb qdloader 9008'', hwid = None\<rparr>"

definition lower_case_hwid_port :: port where
  "lower_case_hwid_port =
     \<lparr>device = ''/dev/ttyUSB0'', description = None, hwid = Some ''usb vid:pid=05c6:9008''\<rparr>"

definition com7_port :: port where
  "com7_port = \<lparr>device = ''COM7'', description = Some ''Qualcomm HS-USB QDLoader 9008 (COM7)'',
                 hwid = Some ''USB VID:PID=05C6:9008 REV=0100''\<rparr>"

text \<open>No port at the first two enumerations, the EDL port \<^verbatim>\<open>COM7\<close> from the third on.\<close>

definition edl_on_third_scan :: world where
  "edl_on_third_scan =
     example_world\<lparr>comports_oracle := (\<lambda>n. if n < 2 then Inr [] else Inr [com7_port])\<rparr>"

text \<open>
  \<^verbatim>\<open>fastboot devices\<close> lists nothing the first two times, a device from the third on.
\<close>

definition fastboot_on_third_check :: world where
  "fastboot_on_third_check =
     example_world\<lparr>proc_oracle :=
       (\<lambda>n argv. if n < 2 then Exited 0 [] [] else Exited 0 ''0123456789ABCDEF fastboot'' [])\<rparr>"

text \<open>The Sahara upload fails: \<^verbatim>\<open>QSaharaServer\<close> exits with code 1, every other child with 0.\<close>

definition sahara_fails :: world where
  "sahara_fails =
     example_world\<lparr>proc_oracle :=
       (\<lambda>n argv. if hd argv = ''tools/Qsaharaserver.exe'' then Exited 1 [] ''handshake failed''
                  else Exited 0 [] [])\<rparr>"

definition example_loader :: pypath where
  "example_loader = mk_path ''image'' ''xbl_s_devprg_ns.melf''"

text \<open>The commands run between two worlds, the second reached from the first.\<close>

definition spawned_since :: "world \<Rightarrow> world \<Rightarrow> string list list" where
  "spawned_since w w' = drop (length (spawned w)) (spawned w')"

text \<open>The EDL port \<^verbatim>\<open>COM7\<close> is there at every enumeration.\<close>

definition edl_connected :: world where
  "edl_connected = example_world\<lparr>comports_oracle := (\<lambda>n. Inr [adb_port, com7_port])\<rparr>"




section \<open>Properties\<close>

subsection \<open>The trace and the oracles\<close>

lemmas io_defs = return_def throw_def bind_def seq_def except_Exception_def print_to_def say_def
  print_text_def unless_def

lemmas example_defs = example_world_def example_constants_def example_controller_def mk_path_def

lemma trace_emit [simp]: "trace (emit ev w) = trace w @ [ev]"
  by (simp add: emit_def)

lemma count_emit [simp]:
  "count kind (emit ev w) = (if kind ev then Suc (count kind w) else count kind w)"
  by (simp add: count_def emit_def)

lemma oracles_emit [simp]:
  "environ_PATH (emit ev w) = environ_PATH w"
  "platform_system (emit ev w) = platform_system w"
  "proc_oracle (emit ev w) = proc_oracle w"
  "comports_oracle (emit ev w) = comports_oracle w"
  "sleep_oracle (emit ev w) = sleep_oracle w"
  "input_oracle (emit ev w) = input_oracle w"
  "exists_oracle (emit ev w) = exists_oracle w"
  "mkdir_oracle (emit ev w) = mkdir_oracle w"
  by (simp_all add: emit_def)

lemma spawned_of_append [simp]: "spawned_of (xs @ ys) = spawned_of xs @ spawned_of ys"
  by (induction xs rule: spawned_of.induct) simp_all

lemma spawned_emit [simp]:
  "spawned (emit ev w) = spawned w @ spawned_of [ev]"
  by (simp add: spawned_def)

subsection \<open>\<^verbatim>\<open>run_command\<close>\<close>

lemma run_command_no_path:
  "environ_PATH w = None \<Longrightarrow>
   run_command k command check capture w = (Inl (Raise (KeyError ''PATH'')), w)"
  by (simp add: run_command_def)

lemma run_command_launch_error:
  "environ_PATH w = Some p \<Longrightarrow> proc_oracle w (count is_Spawn w) command = LaunchError f \<Longrightarrow>
   run_command k command check capture w =
     (Inl (Raise (launch_exn f)),
      (case f of
         NotFound n \<Rightarrow>
           emit (Print Stderr (Literal (''Error: Command not found - '' @ filename_str n)))
             (emit (Spawn command (tool_path k p) capture) w)
       | Failed reason \<Rightarrow> emit (Spawn command (tool_path k p) capture) w))"
  by (cases f)
     (simp_all add: run_command_def subprocess_run_def run_command_handler_def io_defs Let_def)

lemma run_command_captured:
  "environ_PATH w = Some p \<Longrightarrow> proc_oracle w (count is_Spawn w) command = Exited rc out err \<Longrightarrow>
   \<not> (check \<and> rc \<noteq> 0) \<Longrightarrow>
   run_command k command check True w =
     (Inr \<lparr>returncode = rc, stdout = Some out, stderr = Some err\<rparr>,
      emit (Spawn command (tool_path k p) True) w)"
  by (auto simp: run_command_def subprocess_run_def io_defs Let_def)

text \<open>
  Without \<^verbatim>\<open>capture\<close> the child writes to the streams it inherits, the object
  \<^verbatim>\<open>subprocess.run\<close> returns holds no text, and the two \<^verbatim>\<open>print\<close> calls of lines 26 to
  29 are never reached.
\<close>

lemma run_command_inherited:
  "environ_PATH w = Some p \<Longrightarrow> proc_oracle w (count is_Spawn w) command = Exited rc out err \<Longrightarrow>
   \<not> (check \<and> rc \<noteq> 0) \<Longrightarrow>
   run_command k command check False w =
     (Inr \<lparr>returncode = rc, stdout = None, stderr = None\<rparr>,
      emit (ChildWrites Stderr err) (emit (ChildWrites Stdout out)
        (emit (Spawn command (tool_path k p) False) w)))"
  by (auto simp: run_command_def subprocess_run_def echo_def io_defs Let_def)

lemma run_command_inherited_failed:
  "environ_PATH w = Some p \<Longrightarrow> proc_oracle w (count is_Spawn w) command = Exited rc out err \<Longrightarrow>
   rc \<noteq> 0 \<Longrightarrow>
   run_command k command True False w =
     (Inl (Raise (CalledProcessError rc None None)),
      emit (Print Stderr (Literal (''Return code: '' @ str_int rc)))
        (emit (Print Stderr (Literal (''Error executing command: '' @ join '' '' command)))
          (emit (ChildWrites Stderr err) (emit (ChildWrites Stdout out)
            (emit (Spawn command (tool_path k p) False) w)))))"
  by (simp add: run_command_def subprocess_run_def run_command_handler_def echo_labelled_def
      io_defs Let_def)

text \<open>
  C5, as the code has it. When capturing is requested and the command completes (its
  return code is 0, or \<^verbatim>\<open>check\<close> is off), the child's two texts are returned to the
  caller and the runner prints nothing: the trace gains the \<open>Spawn\<close> alone. When
  capturing is requested, \<^verbatim>\<open>check\<close> is on and the return code is not 0, the runner
  prints the command, the return code and the two captured texts, trimmed, when they
  are not empty, all to standard error, and raises \<^verbatim>\<open>CalledProcessError\<close>, which carries
  the texts. When capturing is not requested, nothing of what the child wrote is
  handed to the caller: the object returned, or the error raised, holds \<^verbatim>\<open>None\<close> for
  both texts.
\<close>

theorem run_command_capture:
  assumes "environ_PATH w = Some p"
    and "proc_oracle w (count is_Spawn w) command = Exited rc out err"
  shows "run_command k command check True w =
      (if check \<and> rc \<noteq> 0
       then (Inl (Raise (CalledProcessError rc (Some out) (Some err))),
             w\<lparr>trace := trace w @
                [Spawn command (tool_path k p) True,
                 Print Stderr (Literal (''Error executing command: '' @ join '' '' command)),
                 Print Stderr (Literal (''Return code: '' @ str_int rc))]
                @ (if out \<noteq> [] then [Print Stderr (Literal (''Stdout:'' @ [CHR 0x0A] @ strip out))]
                   else [])
                @ (if err \<noteq> [] then [Print Stderr (Literal (''Stderr:'' @ [CHR 0x0A] @ strip err))]
                   else [])\<rparr>)
       else (Inr \<lparr>returncode = rc, stdout = Some out, stderr = Some err\<rparr>,
             w\<lparr>trace := trace w @ [Spawn command (tool_path k p) True]\<rparr>))
    \<and> fst (run_command k command check False w) =
      (if check \<and> rc \<noteq> 0 then Inl (Raise (CalledProcessError rc None None))
       else Inr \<lparr>returncode = rc, stdout = None, stderr = None\<rparr>)"
  using assms
  by (simp add: run_command_def subprocess_run_def run_command_handler_def echo_def
      echo_labelled_def io_defs Let_def emit_def)

theorem run_command_capture_witness:
  "run_command example_constants [''fastboot'', ''devices''] False True
     (example_world\<lparr>proc_oracle := (\<lambda>n argv. Exited 0 (''0123456789ABCDEF fastboot'' @ [CHR 0x0A]) [])\<rparr>)
   = (Inr \<lparr>returncode = 0, stdout = Some (''0123456789ABCDEF fastboot'' @ [CHR 0x0A]),
           stderr = Some []\<rparr>,
      example_world\<lparr>proc_oracle := (\<lambda>n argv. Exited 0 (''0123456789ABCDEF fastboot'' @ [CHR 0x0A]) []),
        trace := [Spawn [''fastboot'', ''devices''] ''./tools;tools/dl;C:/Windows'' True]\<rparr>)
   \<and> fst (run_command example_constants [''fastboot'', ''devices''] False False
       (example_world\<lparr>proc_oracle := (\<lambda>n argv. Exited 0 (''0123456789ABCDEF fastboot'' @ [CHR 0x0A]) [])\<rparr>))
     = Inr \<lparr>returncode = 0, stdout = None, stderr = None\<rparr>"
  using run_command_capture
    [where w = "example_world\<lparr>proc_oracle := (\<lambda>n argv. Exited 0 (''0123456789ABCDEF fastboot'' @ [CHR 0x0A]) [])\<rparr>"
       and p = "''C:/Windows''" and command = "[''fastboot'', ''devices'']" and rc = 0
       and out = "''0123456789ABCDEF fastboot'' @ [CHR 0x0A]" and err = "[]"
       and k = example_constants and check = False]
  by (simp add: example_defs tool_path_def)

text \<open>
  Where C5 fails as it is stated: capturing is requested and the child exits with code
  1. The captured texts are printed, on standard error, and the caller gets an
  exception instead of them.
\<close>

theorem run_command_capture_echoes_on_failure:
  "run_command example_constants [''fastboot'', ''devices''] True True
     (example_world\<lparr>proc_oracle := (\<lambda>n argv. Exited 1 ''no devices '' ''error'')\<rparr>)
   = (Inl (Raise (CalledProcessError 1 (Some ''no devices '') (Some ''error''))),
      example_world\<lparr>proc_oracle := (\<lambda>n argv. Exited 1 ''no devices '' ''error''),
        trace := [Spawn [''fastboot'', ''devices''] ''./tools;tools/dl;C:/Windows'' True,
                  Print Stderr (Literal ''Error executing command: fastboot devices''),
                  Print Stderr (Literal ''Return code: 1''),
                  Print Stderr (Literal (''Stdout:'' @ [CHR 0x0A] @ ''no devices'')),
                  Print Stderr (Literal (''Stderr:'' @ [CHR 0x0A] @ ''error''))]\<rparr>)"
  by (simp add: run_command_def subprocess_run_def run_command_handler_def echo_def echo_labelled_def
      io_defs Let_def emit_def example_defs tool_path_def
      count_def strip_def is_space_def str_int_def str_nat.simps)

subsection \<open>The detectors\<close>

lemma str_in_sublist: "str_in needle hay = sublist needle hay"
  by (induction hay) (simp_all add: sublist_Cons_right)

lemma is_qualcomm_port_spec: "is_qualcomm_port p = edl_port_spec p"
  by (auto simp: is_qualcomm_port_def edl_port_spec_def str_in_sublist upper_def
      split: option.splits)

lemma scan_ports_find: "scan_ports ps = map_option device (find edl_port_spec ps)"
  by (induction ps) (simp_all add: is_qualcomm_port_spec)

lemma check_edl_device_fst:
  "fst (check_edl_device c silent w) = Inr (nth_edl_check w (count is_Comports w))"
  by (cases "comports_oracle w (count is_Comports w)"; cases silent)
     (simp_all add: check_edl_device_def comports_def nth_edl_check_def io_defs
      split: option.splits)

lemma check_edl_device_silent:
  "check_edl_device c True w = (Inr (nth_edl_check w (count is_Comports w)), emit Comports w)"
  by (cases "comports_oracle w (count is_Comports w)")
     (simp_all add: check_edl_device_def comports_def nth_edl_check_def io_defs
      split: option.splits)


text \<open>
  C2. When the enumeration lists the ports \<open>ps\<close>, \<^verbatim>\<open>check_edl_device\<close> returns the device
  of the first port of \<open>ps\<close> that the specification's test accepts (its description
  contains \<^verbatim>\<open>Qualcomm\<close> and \<^verbatim>\<open>9008\<close> as they are written, or its hardware id in upper
  case contains \<^verbatim>\<open>VID:PID=05C6:9008\<close>), and \<^verbatim>\<open>None\<close> when the test accepts no port of
  \<open>ps\<close>.
\<close>

theorem check_edl_device_first_match:
  "comports_oracle w (count is_Comports w) = Inr ps \<Longrightarrow>
   fst (check_edl_device c silent w) = Inr (map_option device (find edl_port_spec ps))"
  by (simp add: check_edl_device_fst nth_edl_check_def scan_ports_find)

theorem check_edl_device_first_match_witness:
  "fst (check_edl_device example_controller False
     (example_world\<lparr>comports_oracle :=
        (\<lambda>n. Inr [lower_case_description_port, adb_port, lower_case_hwid_port, com7_port])\<rparr>))
   = Inr (Some ''/dev/ttyUSB0'')
   \<and> find edl_port_spec [lower_case_description_port, adb_port, lower_case_hwid_port, com7_port]
     = Some lower_case_hwid_port
   \<and> fst (check_edl_device example_controller False
       (example_world\<lparr>comports_oracle := (\<lambda>n. Inr [lower_case_description_port, adb_port])\<rparr>))
     = Inr None"
  using check_edl_device_first_match
    [where w = "example_world\<lparr>comports_oracle :=
           (\<lambda>n. Inr [lower_case_description_port, adb_port, lower_case_hwid_port, com7_port])\<rparr>"
       and ps = "[lower_case_description_port, adb_port, lower_case_hwid_port, com7_port]"
       and c = example_controller and silent = False]
    check_edl_device_first_match
    [where w = "example_world\<lparr>comports_oracle := (\<lambda>n. Inr [lower_case_description_port, adb_port])\<rparr>"
       and ps = "[lower_case_description_port, adb_port]"
       and c = example_controller and silent = False]
  by (simp add: example_defs is_qualcomm_port_spec [symmetric] is_qualcomm_port_def
      lower_case_description_port_def adb_port_def lower_case_hwid_port_def com7_port_def
      upper_def upper_char_def)



subsection \<open>The wait loops\<close>

lemma nth_fastboot_check_same:
  "environ_PATH w' = environ_PATH w \<Longrightarrow> proc_oracle w' = proc_oracle w \<Longrightarrow>
   nth_fastboot_check k w' n = nth_fastboot_check k w n"
  by (simp add: nth_fastboot_check_def split: option.splits)

lemma nth_edl_check_same:
  "comports_oracle w' = comports_oracle w \<Longrightarrow> nth_edl_check w' n = nth_edl_check w n"
  by (simp add: nth_edl_check_def)

lemma nth_edl_check_emit [simp]: "nth_edl_check (emit ev w) n = nth_edl_check w n"
  by (simp add: nth_edl_check_def)

lemma check_edl_device_world:
  "\<exists>w1. check_edl_device c silent w = (Inr (nth_edl_check w (count is_Comports w)), w1)
       \<and> count is_Comports w1 = Suc (count is_Comports w)
       \<and> count is_Sleep w1 = count is_Sleep w
       \<and> comports_oracle w1 = comports_oracle w
       \<and> sleep_oracle w1 = sleep_oracle w"
  by (cases "comports_oracle w (count is_Comports w)"; cases silent)
     (simp_all add: check_edl_device_def comports_def nth_edl_check_def io_defs
      split: option.splits)

lemma check_fastboot_device_world:
  assumes "environ_PATH w = Some p"
  shows "\<exists>w1. check_fastboot_device k c True w
               = (Inr (nth_fastboot_check k w (count is_Spawn w)), w1)
       \<and> count is_Spawn w1 = Suc (count is_Spawn w)
       \<and> count is_Sleep w1 = count is_Sleep w
       \<and> environ_PATH w1 = Some p
       \<and> proc_oracle w1 = proc_oracle w
       \<and> sleep_oracle w1 = sleep_oracle w"
proof (cases "proc_oracle w (count is_Spawn w) [path_str (FASTBOOT_EXE k), ''devices'']")
  case (LaunchError f)
  with assms show ?thesis
    by (cases f)
       (simp_all add: check_fastboot_device_def nth_fastboot_check_def
        run_command_launch_error io_defs)
next
  case (Exited rc out err)
  with assms show ?thesis
    by (simp add: check_fastboot_device_def nth_fastboot_check_def
        run_command_captured strip_of_def io_defs)
qed

lemma wait_for_edl_body_quiet:
  "\<not> sleep_oracle w (count is_Sleep w) \<Longrightarrow>
   wait_for_edl_body w =
     (Inr (), emit (Sleep 2) (emit (Print Stdout (Localised ''device_wait_edl_loop'')) w))"
  by (simp add: wait_for_edl_body_def except_KeyboardInterrupt_def sleep_def io_defs)

lemma wait_for_fastboot_body_quiet:
  "\<not> sleep_oracle w (count is_Sleep w) \<Longrightarrow>
   wait_for_fastboot_body w =
     (Inr (), emit (Sleep 2) (emit (Print Stdout (Localised ''device_wait_fastboot_loop'')) w))"
  by (simp add: wait_for_fastboot_body_def except_KeyboardInterrupt_def sleep_def io_defs)

lemma wait_for_edl_loop_returns:
  "\<lbrakk>\<forall>i<m. \<not> truthy (nth_edl_check w (count is_Comports w + i));
    nth_edl_check w (count is_Comports w + m) = Some p; p \<noteq> [];
    \<forall>j<m. \<not> sleep_oracle w (count is_Sleep w + j)\<rbrakk>
   \<Longrightarrow> \<exists>w'. wait_for_edl_loop c w = Some (Inr p, w')
          \<and> count is_Comports w' = count is_Comports w + m + 1
          \<and> count is_Sleep w' = count is_Sleep w + m"
proof (induction m arbitrary: w)
  case 0
  then show ?case
    by (subst wait_for_edl_loop.simps) (simp add: check_edl_device_silent)
next
  case (Suc m)
  let ?w2 = "emit (Sleep 2) (emit (Print Stdout (Localised ''device_wait_edl_loop'')) (emit Comports w))"
  have first: "\<not> truthy (nth_edl_check w (count is_Comports w))"
    using Suc.prems(1) [rule_format, of 0] by simp
  have quiet: "\<not> sleep_oracle w (count is_Sleep w)"
    using Suc.prems(4) [rule_format, of 0] by simp
  have step: "wait_for_edl_loop c w = wait_for_edl_loop c ?w2"
    using first quiet
    by (subst wait_for_edl_loop.simps) (simp add: check_edl_device_silent wait_for_edl_body_quiet)
  have "\<exists>w'. wait_for_edl_loop c ?w2 = Some (Inr p, w')
          \<and> count is_Comports w' = count is_Comports ?w2 + m + 1
          \<and> count is_Sleep w' = count is_Sleep ?w2 + m"
  proof (rule Suc.IH)
    show "\<forall>i<m. \<not> truthy (nth_edl_check ?w2 (count is_Comports ?w2 + i))"
      using Suc.prems(1) by (auto dest: spec [where x = "Suc i" for i])
    show "nth_edl_check ?w2 (count is_Comports ?w2 + m) = Some p"
      using Suc.prems(2) by simp
    show "p \<noteq> []" by fact
    show "\<forall>j<m. \<not> sleep_oracle ?w2 (count is_Sleep ?w2 + j)"
      using Suc.prems(4) by (auto dest: spec [where x = "Suc j" for j])
  qed
  then show ?case
    using step by auto
qed

lemma wait_for_fastboot_loop_returns:
  "\<lbrakk>environ_PATH w = Some p;
    \<forall>i<m. \<not> nth_fastboot_check k w (count is_Spawn w + i);
    nth_fastboot_check k w (count is_Spawn w + m);
    \<forall>j<m. \<not> sleep_oracle w (count is_Sleep w + j)\<rbrakk>
   \<Longrightarrow> \<exists>w'. wait_for_fastboot_loop k c w = Some (Inr (), w')
          \<and> count is_Spawn w' = count is_Spawn w + m + 1
          \<and> count is_Sleep w' = count is_Sleep w + m"
proof (induction m arbitrary: w)
  case 0
  obtain w1 where w1: "check_fastboot_device k c True w
        = (Inr (nth_fastboot_check k w (count is_Spawn w)), w1)"
      "count is_Spawn w1 = Suc (count is_Spawn w)" "count is_Sleep w1 = count is_Sleep w"
    using check_fastboot_device_world [OF "0.prems"(1)] by blast
  with "0.prems"(3) show ?case
    by (subst wait_for_fastboot_loop.simps) simp
next
  case (Suc m)
  obtain w1 where w1: "check_fastboot_device k c True w
        = (Inr (nth_fastboot_check k w (count is_Spawn w)), w1)"
      "count is_Spawn w1 = Suc (count is_Spawn w)" "count is_Sleep w1 = count is_Sleep w"
      "environ_PATH w1 = Some p" "proc_oracle w1 = proc_oracle w" "sleep_oracle w1 = sleep_oracle w"
    using check_fastboot_device_world [OF Suc.prems(1)] by blast
  let ?w2 = "emit (Sleep 2) (emit (Print Stdout (Localised ''device_wait_fastboot_loop'')) w1)"
  have first: "\<not> nth_fastboot_check k w (count is_Spawn w)"
    using Suc.prems(2) [rule_format, of 0] by simp
  have quiet: "\<not> sleep_oracle w1 (count is_Sleep w1)"
    using Suc.prems(4) [rule_format, of 0] w1 by simp
  have step: "wait_for_fastboot_loop k c w = wait_for_fastboot_loop k c ?w2"
    using first quiet w1(1)
    by (subst wait_for_fastboot_loop.simps) (simp add: wait_for_fastboot_body_quiet)
  have same: "nth_fastboot_check k ?w2 n = nth_fastboot_check k w n" for n
    using w1 Suc.prems(1) by (intro nth_fastboot_check_same) simp_all
  have "\<exists>w'. wait_for_fastboot_loop k c ?w2 = Some (Inr (), w')
          \<and> count is_Spawn w' = count is_Spawn ?w2 + m + 1
          \<and> count is_Sleep w' = count is_Sleep ?w2 + m"
  proof (rule Suc.IH)
    show "environ_PATH ?w2 = Some p" using w1 by simp
    show "\<forall>i<m. \<not> nth_fastboot_check k ?w2 (count is_Spawn ?w2 + i)"
      using Suc.prems(2) w1 by (auto simp: same dest: spec [where x = "Suc i" for i])
    show "nth_fastboot_check k ?w2 (count is_Spawn ?w2 + m)"
      using Suc.prems(3) w1 by (simp add: same)
    show "\<forall>j<m. \<not> sleep_oracle ?w2 (count is_Sleep ?w2 + j)"
      using Suc.prems(4) w1 by (auto dest: spec [where x = "Suc j" for j])
  qed
  then show ?case
    using step w1 by auto
qed

lemma map_upt_snoc:
  "map f [0..<Suc (length rs)] = rs @ [x] \<Longrightarrow> (\<forall>i<length rs. f i = rs ! i) \<and> f (length rs) = x"
proof -
  assume a: "map f [0..<Suc (length rs)] = rs @ [x]"
  then have "map f [0..<length rs] @ [f (length rs)] = rs @ [x]" by simp
  then have rs: "map f [0..<length rs] = rs" and x: "f (length rs) = x" by simp_all
  have "\<forall>i<length rs. f i = rs ! i"
  proof (intro allI impI)
    fix i assume "i < length rs"
    then have "map f [0..<length rs] ! i = f i" by simp
    with rs show "f i = rs ! i" by simp
  qed
  with x show ?thesis by simp
qed

lemma wait_for_edl_returns:
  assumes checks: "next_edl_checks w (Suc (length rs)) = rs @ [Some p]"
    and fails: "\<forall>r \<in> set rs. \<not> truthy r"
    and present: "p \<noteq> []"
    and quiet: "\<forall>b \<in> set (next_sleeps w (length rs - 1)). \<not> b"
  shows "\<exists>w'. wait_for_edl c w = Some (Inr p, w')
          \<and> count is_Comports w' = count is_Comports w + length rs + 1
          \<and> count is_Sleep w' = count is_Sleep w + (length rs - 1)"
proof -
  let ?m = "length rs"
  let ?w0 = "emit (Print Stdout (Localised ''device_wait_edl_title'')) w"
  from map_upt_snoc [OF checks [unfolded next_edl_checks_def]]
  have nth: "\<forall>i<?m. nth_edl_check w (count is_Comports w + i) = rs ! i"
    and last: "nth_edl_check w (count is_Comports w + ?m) = Some p" by simp_all
  have falsy: "\<not> truthy (nth_edl_check w (count is_Comports w + i))" if "i < ?m" for i
    using nth fails that by simp
  have nosleep: "\<not> sleep_oracle w (count is_Sleep w + j)" if "j < ?m - 1" for j
    using quiet that by (simp add: next_sleeps_def)
  obtain w1 where run: "check_edl_device c False ?w0 = (Inr (nth_edl_check w (count is_Comports w)), w1)"
    and w1: "count is_Comports w1 = Suc (count is_Comports w)" "count is_Sleep w1 = count is_Sleep w"
      "comports_oracle w1 = comports_oracle w" "sleep_oracle w1 = sleep_oracle w"
    using check_edl_device_world [of c False ?w0] by auto
  have start: "wait_for_edl c w =
      (if truthy (nth_edl_check w (count is_Comports w))
       then Some (Inr (the (nth_edl_check w (count is_Comports w))), w1)
       else pbind (wait_for_edl_loop c) (\<lambda>found.
              lift (seq (say Stdout ''device_edl_connected'') (return found))) w1)"
    using run by (simp add: wait_for_edl_def pbind_def lift_def io_defs)
  show ?thesis
  proof (cases ?m)
    case 0
    with last have "nth_edl_check w (count is_Comports w) = Some p" by simp
    with start present w1 0 show ?thesis by simp
  next
    case (Suc n)
    have first: "\<not> truthy (nth_edl_check w (count is_Comports w))"
      using falsy [of 0] Suc by simp
    have same: "nth_edl_check w1 i = nth_edl_check w i" for i
      using w1(3) by (rule nth_edl_check_same)
    have "\<exists>w'. wait_for_edl_loop c w1 = Some (Inr p, w')
          \<and> count is_Comports w' = count is_Comports w1 + n + 1
          \<and> count is_Sleep w' = count is_Sleep w1 + n"
    proof (rule wait_for_edl_loop_returns)
      show "\<forall>i<n. \<not> truthy (nth_edl_check w1 (count is_Comports w1 + i))"
      proof (intro allI impI)
        fix i assume "i < n"
        then show "\<not> truthy (nth_edl_check w1 (count is_Comports w1 + i))"
          using falsy [of "Suc i"] Suc by (simp add: same w1)
      qed
      show "nth_edl_check w1 (count is_Comports w1 + n) = Some p"
        using last Suc by (simp add: same w1)
      show "p \<noteq> []" by fact
      show "\<forall>j<n. \<not> sleep_oracle w1 (count is_Sleep w1 + j)"
      proof (intro allI impI)
        fix j assume "j < n"
        then show "\<not> sleep_oracle w1 (count is_Sleep w1 + j)"
          using nosleep [of j] Suc by (simp add: w1)
      qed
    qed
    then obtain w' where w': "wait_for_edl_loop c w1 = Some (Inr p, w')"
        "count is_Comports w' = count is_Comports w1 + n + 1"
        "count is_Sleep w' = count is_Sleep w1 + n" by blast
    have "wait_for_edl c w =
        Some (Inr p, emit (Print Stdout (Localised ''device_edl_connected'')) w')"
      using start first w'(1) by (simp add: pbind_def lift_def io_defs)
    with w' w1 Suc show ?thesis by simp
  qed
qed


lemma wait_for_fastboot_returns:
  assumes checks: "next_fastboot_checks k w (Suc m) = replicate m False @ [True]"
    and quiet: "\<forall>b \<in> set (next_sleeps w (m - 1)). \<not> b"
  shows "\<exists>w'. wait_for_fastboot k c w = Some (Inr True, w')
          \<and> count is_Spawn w' = count is_Spawn w + m + 1
          \<and> count is_Sleep w' = count is_Sleep w + (m - 1)"
proof -
  let ?w0 = "emit (Print Stdout (Localised ''device_wait_fastboot_title'')) w"
  have len: "length (replicate m False) = m" by simp
  from map_upt_snoc [of _ "replicate m False", unfolded len, OF checks [unfolded next_fastboot_checks_def]]
  have nth: "\<forall>i<m. nth_fastboot_check k w (count is_Spawn w + i) = replicate m False ! i"
    and last: "nth_fastboot_check k w (count is_Spawn w + m)" by simp_all
  have falsy: "\<not> nth_fastboot_check k w (count is_Spawn w + i)" if "i < m" for i
    using nth that by simp
  have nosleep: "\<not> sleep_oracle w (count is_Sleep w + j)" if "j < m - 1" for j
    using quiet that by (simp add: next_sleeps_def)
  obtain p where path: "environ_PATH w = Some p"
    using last by (cases "environ_PATH w") (simp_all add: nth_fastboot_check_def)
  then have path0: "environ_PATH ?w0 = Some p" by simp
  obtain w1 where run: "check_fastboot_device k c True ?w0
          = (Inr (nth_fastboot_check k w (count is_Spawn w)), w1)"
    and w1: "count is_Spawn w1 = Suc (count is_Spawn w)" "count is_Sleep w1 = count is_Sleep w"
      "environ_PATH w1 = Some p" "proc_oracle w1 = proc_oracle w" "sleep_oracle w1 = sleep_oracle w"
    using check_fastboot_device_world [OF path0, of k c] path
    by (auto simp: nth_fastboot_check_same [of ?w0 w])
  have start: "wait_for_fastboot k c w =
      (if nth_fastboot_check k w (count is_Spawn w)
       then Some (Inr True, emit (Print Stdout (Localised ''device_fastboot_connected'')) w1)
       else pbind (wait_for_fastboot_loop k c) (\<lambda>u.
              lift (seq (say Stdout ''device_fastboot_connected'') (return True))) w1)"
    using run by (simp add: wait_for_fastboot_def pbind_def lift_def io_defs)
  show ?thesis
  proof (cases m)
    case 0
    with last start w1 show ?thesis by simp
  next
    case (Suc n)
    have first: "\<not> nth_fastboot_check k w (count is_Spawn w)"
      using falsy [of 0] Suc by simp
    have same: "nth_fastboot_check k w1 i = nth_fastboot_check k w i" for i
      using w1 path by (intro nth_fastboot_check_same) simp_all
    have "\<exists>w'. wait_for_fastboot_loop k c w1 = Some (Inr (), w')
          \<and> count is_Spawn w' = count is_Spawn w1 + n + 1
          \<and> count is_Sleep w' = count is_Sleep w1 + n"
    proof (rule wait_for_fastboot_loop_returns)
      show "environ_PATH w1 = Some p" by (rule w1)
      show "\<forall>i<n. \<not> nth_fastboot_check k w1 (count is_Spawn w1 + i)"
      proof (intro allI impI)
        fix i assume "i < n"
        then show "\<not> nth_fastboot_check k w1 (count is_Spawn w1 + i)"
          using falsy [of "Suc i"] Suc by (simp add: same w1)
      qed
      show "nth_fastboot_check k w1 (count is_Spawn w1 + n)"
        using last Suc by (simp add: same w1)
      show "\<forall>j<n. \<not> sleep_oracle w1 (count is_Sleep w1 + j)"
      proof (intro allI impI)
        fix j assume "j < n"
        then show "\<not> sleep_oracle w1 (count is_Sleep w1 + j)"
          using nosleep [of j] Suc by (simp add: w1)
      qed
    qed
    then obtain w' where w': "wait_for_fastboot_loop k c w1 = Some (Inr (), w')"
        "count is_Spawn w' = count is_Spawn w1 + n + 1"
        "count is_Sleep w' = count is_Sleep w1 + n" by blast
    have "wait_for_fastboot k c w =
        Some (Inr True, emit (Print Stdout (Localised ''device_fastboot_connected'')) w')"
      using start first w'(1) by (simp add: pbind_def lift_def io_defs)
    with w' w1 Suc show ?thesis by simp
  qed
qed

text \<open>
  C4, as the code has it. Let the next checks of the detector answer \<open>rs\<close>, none of
  them a value the loop takes for present, and then a present value (a port that is not
  the empty string for \<^verbatim>\<open>wait_for_edl\<close>, \<^verbatim>\<open>True\<close> for \<^verbatim>\<open>wait_for_fastboot\<close>), and let
  the operator not interrupt the sleeps in between. Then the wait returns exactly that
  value; it has called the detector once for each answer, \<open>length rs + 1\<close> times, and
  never again; and it has slept \<open>length rs - 1\<close> times, once after each failed check but
  the first: the check before the loop and the first check of the loop follow each other
  with no sleep between them. So there is no sleep after the last check, and one sleep
  less than there are failed checks.
\<close>

theorem wait_returns_first_present_value:
  "(next_edl_checks w (Suc (length rs)) = rs @ [Some p] \<and> (\<forall>r \<in> set rs. \<not> truthy r) \<and> p \<noteq> []
      \<and> (\<forall>b \<in> set (next_sleeps w (length rs - 1)). \<not> b)
    \<longrightarrow> (\<exists>w'. wait_for_edl c w = Some (Inr p, w')
          \<and> count is_Comports w' = count is_Comports w + length rs + 1
          \<and> count is_Sleep w' = count is_Sleep w + (length rs - 1)))
   \<and> (next_fastboot_checks k w (Suc m) = replicate m False @ [True]
      \<and> (\<forall>b \<in> set (next_sleeps w (m - 1)). \<not> b)
    \<longrightarrow> (\<exists>w'. wait_for_fastboot k c w = Some (Inr True, w')
          \<and> count is_Spawn w' = count is_Spawn w + m + 1
          \<and> count is_Sleep w' = count is_Sleep w + (m - 1)))"
  using wait_for_edl_returns [of w rs p c] wait_for_fastboot_returns [of k w m c] by blast

theorem wait_returns_first_present_value_witness:
  "(\<exists>w'. wait_for_edl example_controller edl_on_third_scan = Some (Inr ''COM7'', w')
        \<and> count is_Comports w' = 3 \<and> count is_Sleep w' = 1)
   \<and> (\<exists>w'. wait_for_fastboot example_constants example_controller fastboot_on_third_check
          = Some (Inr True, w')
        \<and> count is_Spawn w' = 3 \<and> count is_Sleep w' = 1)"
proof -
  have edl: "next_edl_checks edl_on_third_scan (Suc (length [None, None :: string option]))
      = [None, None] @ [Some ''COM7'']"
    by (simp add: next_edl_checks_def nth_edl_check_def edl_on_third_scan_def example_defs
        count_def com7_port_def is_qualcomm_port_def)
  have fb: "next_fastboot_checks example_constants fastboot_on_third_check (Suc 2)
      = replicate 2 False @ [True]"
    by (simp add: next_fastboot_checks_def nth_fastboot_check_def fastboot_on_third_check_def
        example_defs count_def strip_def is_space_def numeral_2_eq_2)
  have q1: "\<forall>b \<in> set (next_sleeps edl_on_third_scan (length [None, None :: string option] - 1)). \<not> b"
    by (simp add: next_sleeps_def edl_on_third_scan_def example_defs)
  have q2: "\<forall>b \<in> set (next_sleeps fastboot_on_third_check (2 - 1)). \<not> b"
    by (simp add: next_sleeps_def fastboot_on_third_check_def example_defs)
  have c0: "count is_Comports edl_on_third_scan = 0" "count is_Sleep edl_on_third_scan = 0"
    "count is_Spawn fastboot_on_third_check = 0" "count is_Sleep fastboot_on_third_check = 0"
    by (simp_all add: count_def edl_on_third_scan_def fastboot_on_third_check_def example_defs)
  show ?thesis
    using wait_returns_first_present_value
      [where w = edl_on_third_scan and rs = "[None, None]" and p = "''COM7''"
         and c = example_controller, THEN conjunct1]
      wait_returns_first_present_value
      [where w = fastboot_on_third_check and m = 2 and k = example_constants
         and c = example_controller, THEN conjunct2]
      edl fb q1 q2
    by (simp add: c0 numeral_3_eq_3)
qed

text \<open>
  Where C4 fails as it is stated: for the answers \<^verbatim>\<open>None\<close>, \<^verbatim>\<open>None\<close>, \<^verbatim>\<open>COM7\<close> the wait
  returns \<^verbatim>\<open>COM7\<close> after one sleep, not two. The trace shows the three enumerations and
  the single sleep between the second and the third.
\<close>

theorem wait_for_edl_sleeps_once:
  "outcome (wait_for_edl example_controller edl_on_third_scan) = Some (Inr ''COM7'')
   \<and> final_trace (wait_for_edl example_controller edl_on_third_scan) =
       [Print Stdout (Localised ''device_wait_edl_title''),
        Print Stdout (Localised ''device_check_edl''),
        Comports,
        Print Stdout (Localised ''device_no_edl''),
        Print Stdout (Localised ''device_connect_edl''),
        Comports,
        Print Stdout (Localised ''device_wait_edl_loop''),
        Sleep 2,
        Comports,
        Print Stdout (Localised ''device_edl_connected'')]
   \<and> length (filter is_Sleep (final_trace (wait_for_edl example_controller edl_on_third_scan))) = 1"
proof -
  have "wait_for_edl example_controller edl_on_third_scan =
    Some (Inr ''COM7'', edl_on_third_scan\<lparr>trace :=
       [Print Stdout (Localised ''device_wait_edl_title''),
        Print Stdout (Localised ''device_check_edl''),
        Comports,
        Print Stdout (Localised ''device_no_edl''),
        Print Stdout (Localised ''device_connect_edl''),
        Comports,
        Print Stdout (Localised ''device_wait_edl_loop''),
        Sleep 2,
        Comports,
        Print Stdout (Localised ''device_edl_connected'')]\<rparr>)"
    by (simp add: wait_for_edl_def wait_for_edl_loop.simps wait_for_edl_body_def
        check_edl_device_def comports_def sleep_def except_KeyboardInterrupt_def
        pbind_def lift_def io_defs emit_def count_def
        edl_on_third_scan_def example_defs com7_port_def is_qualcomm_port_def)
  then show ?thesis
    by (simp add: outcome_def final_trace_def)
qed

subsection \<open>Sahara and Firehose\<close>

lemma run_command_spawned:
  "spawned (snd (run_command k command check capture w)) =
     spawned w @ (if environ_PATH w = None then [] else [command])"
proof (cases "environ_PATH w")
  case None
  then show ?thesis by (simp add: run_command_no_path)
next
  case (Some p)
  show ?thesis
  proof (cases "proc_oracle w (count is_Spawn w) command")
    case (LaunchError f)
    with Some show ?thesis
      by (cases f) (simp_all add: run_command_launch_error)
  next
    case (Exited rc out err)
    with Some show ?thesis
      by (cases capture)
         (simp_all add: run_command_def subprocess_run_def run_command_handler_def echo_def
          echo_labelled_def io_defs Let_def)
  qed
qed


lemma load_firehose_programmer_missing:
  "\<not> exists_oracle w (count is_Exists w) (path_str (QSAHARASERVER_EXE k)) \<Longrightarrow>
   load_firehose_programmer k c loader_path port w =
     (Inl (Raise (FileNotFoundError None)), emit (Exists (path_str (QSAHARASERVER_EXE k))) w)"
  by (simp add: load_firehose_programmer_def path_exists_def io_defs)

lemma load_firehose_programmer_spawned:
  "spawned (snd (load_firehose_programmer k c loader_path port w)) =
     spawned w @ (if exists_oracle w (count is_Exists w) (path_str (QSAHARASERVER_EXE k))
                     \<and> environ_PATH w \<noteq> None
                  then [cmd_sahara k loader_path port] else [])"
proof (cases "exists_oracle w (count is_Exists w) (path_str (QSAHARASERVER_EXE k))")
  case False
  then show ?thesis by (simp add: load_firehose_programmer_missing)
next
  case True
  let ?w2 = "emit (Print Stdout (Localised ''device_upload_programmer''))
               (emit (Exists (path_str (QSAHARASERVER_EXE k))) w)"
  obtain r w3 where run: "run_command k (cmd_sahara k loader_path port) True False ?w2 = (r, w3)"
    by (cases "run_command k (cmd_sahara k loader_path port) True False ?w2")
  have sp: "spawned w3 = spawned w @ (if environ_PATH w = None then [] else [cmd_sahara k loader_path port])"
    using run_command_spawned [of k "cmd_sahara k loader_path port" True False ?w2] run
    by simp
  show ?thesis
  proof (cases r)
    case (Inr v)
    with True run sp show ?thesis
      by (simp add: load_firehose_programmer_def path_exists_def except_CalledProcessError_def io_defs)
  next
    case (Inl a)
    show ?thesis
    proof (cases a)
      case (Raise e)
      with True run sp Inl show ?thesis
        by (cases e)
           (simp_all add: load_firehose_programmer_def path_exists_def
            except_CalledProcessError_def io_defs)
    next
      case KeyboardInterrupt
      with True run sp Inl show ?thesis
        by (simp add: load_firehose_programmer_def path_exists_def
            except_CalledProcessError_def io_defs)
    next
      case (SystemExit n)
      with True run sp Inl show ?thesis
        by (simp add: load_firehose_programmer_def path_exists_def
            except_CalledProcessError_def io_defs)
    qed
  qed
qed

text \<open>
  C8. When the Sahara executable does not exist, \<^verbatim>\<open>load_firehose_programmer\<close> raises
  \<^verbatim>\<open>FileNotFoundError\<close> and has done nothing but look for it. When it exists (and the
  runner finds a \<^verbatim>\<open>PATH\<close> to extend), the one command the call runs has exactly these
  arguments: the executable's path, \<^verbatim>\<open>-p\<close>, the port behind two backslashes, a dot and a
  backslash, \<^verbatim>\<open>-s\<close>, and \<^verbatim>\<open>13:\<close> followed by the loader's path.
\<close>

theorem load_firehose_programmer_invocation:
  "(\<not> exists_oracle w (count is_Exists w) (path_str (QSAHARASERVER_EXE k)) \<longrightarrow>
      load_firehose_programmer k c loader_path port w =
        (Inl (Raise (FileNotFoundError None)), emit (Exists (path_str (QSAHARASERVER_EXE k))) w))
   \<and> (exists_oracle w (count is_Exists w) (path_str (QSAHARASERVER_EXE k)) \<and> environ_PATH w \<noteq> None \<longrightarrow>
      spawned (snd (load_firehose_programmer k c loader_path port w)) =
        spawned w @ [[path_str (QSAHARASERVER_EXE k),
                      ''-p'', [CHR 0x5C, CHR 0x5C, CHR ''.'', CHR 0x5C] @ port,
                      ''-s'', ''13:'' @ path_str loader_path]])"
  by (simp add: load_firehose_programmer_missing load_firehose_programmer_spawned
      cmd_sahara_def port_str_def)

lemma edl_rawprogram_tools_spawned:
  "spawned (snd (edl_rawprogram_tools k w)) = spawned w"
  by (simp add: edl_rawprogram_tools_def path_exists_def io_defs)

text \<open>
  C1. Let \<^verbatim>\<open>edl_rawprogram\<close> find both tools and reach step 1, and let
  \<^verbatim>\<open>load_firehose_programmer\<close> fail there with \<open>a\<close>, leaving the world \<open>w_load\<close>. Then
  \<^verbatim>\<open>edl_rawprogram\<close> fails with the same \<open>a\<close> and leaves the same world: nothing happens
  after the failure. The commands it has run are none or the Sahara upload alone; the
  \<^verbatim>\<open>fh_loader\<close> command of step 2 is not among them.
\<close>

theorem edl_rawprogram_stops_when_upload_fails:
  assumes tools: "edl_rawprogram_tools k w = (Inr (), w_tools)"
    and upload: "load_firehose_programmer k c loader_path port
                   (emit (Print Stdout (Localised ''device_step1_load'')) w_tools) = (Inl a, w_load)"
  shows "edl_rawprogram k c loader_path memory_type raw_xmls patch_xmls port w = (Inl a, w_load)
    \<and> (spawned_since w w_load = [] \<or> spawned_since w w_load = [cmd_sahara k loader_path port])
    \<and> cmd_fh k loader_path memory_type raw_xmls patch_xmls port \<notin> set (spawned_since w w_load)"
proof -
  have run: "edl_rawprogram k c loader_path memory_type raw_xmls patch_xmls port w = (Inl a, w_load)"
    using tools upload by (simp add: edl_rawprogram_def io_defs)
  have "spawned w_tools = spawned w"
    using edl_rawprogram_tools_spawned [of k w] tools by simp
  moreover have "spawned w_load = spawned w_tools \<or> spawned w_load = spawned w_tools @ [cmd_sahara k loader_path port]"
    using load_firehose_programmer_spawned
      [of k c loader_path port "emit (Print Stdout (Localised ''device_step1_load'')) w_tools"] upload
    by (simp split: if_splits)
  ultimately have since: "spawned_since w w_load = [] \<or> spawned_since w w_load = [cmd_sahara k loader_path port]"
    by (auto simp: spawned_since_def)
  have "length (cmd_fh k loader_path memory_type raw_xmls patch_xmls port)
      \<noteq> length (cmd_sahara k loader_path port)"
    by (simp add: cmd_fh_def cmd_sahara_def)
  then have "cmd_fh k loader_path memory_type raw_xmls patch_xmls port \<noteq> cmd_sahara k loader_path port"
    by auto
  with since have "cmd_fh k loader_path memory_type raw_xmls patch_xmls port \<notin> set (spawned_since w w_load)"
    by auto
  with run since show ?thesis by simp
qed


lemmas eval_defs = run_command_def subprocess_run_def run_command_handler_def echo_def
  echo_labelled_def path_exists_def mkdir_exist_ok_def sleep_def input_def comports_def
  os_system_def except_CalledProcessError_def except_KeyboardInterrupt_def except_EOFError_def
  pbind_def lift_def tool_path_def filename_str_def io_defs emit_def count_def Let_def

theorem load_firehose_programmer_invocation_witness:
  "load_firehose_programmer example_constants example_controller example_loader ''COM7''
     (example_world\<lparr>exists_oracle := (\<lambda>n p. False)\<rparr>)
   = (Inl (Raise (FileNotFoundError None)),
      example_world\<lparr>exists_oracle := (\<lambda>n p. False), trace := [Exists ''tools/Qsaharaserver.exe'']\<rparr>)
   \<and> spawned (snd (load_firehose_programmer example_constants example_controller example_loader
                       ''COM7'' example_world))
     = [[''tools/Qsaharaserver.exe'',
         ''-p'', [CHR 0x5C, CHR 0x5C, CHR ''.'', CHR 0x5C] @ ''COM7'',
         ''-s'', ''13:image/xbl_s_devprg_ns.melf'']]"
  using load_firehose_programmer_invocation
      [where w = "example_world\<lparr>exists_oracle := (\<lambda>n p. False)\<rparr>" and k = example_constants
         and c = example_controller and loader_path = example_loader and port = "''COM7''",
       THEN conjunct1]
    load_firehose_programmer_invocation
      [where w = example_world and k = example_constants
         and c = example_controller and loader_path = example_loader and port = "''COM7''",
       THEN conjunct2]
  by (simp add: example_defs example_loader_def count_def emit_def spawned_def)

theorem edl_rawprogram_stops_when_upload_fails_witness:
  "edl_rawprogram example_constants example_controller example_loader ''UFS''
     [mk_path ''image'' ''rawprogram0.xml''] [mk_path ''image'' ''patch0.xml''] ''COM7'' sahara_fails
   = (Inl (Raise (CalledProcessError 1 None None)),
      sahara_fails\<lparr>trace :=
        [Exists ''tools/Qsaharaserver.exe'',
         Exists ''tools/fh_loader.exe'',
         Print Stdout (Localised ''device_step1_load''),
         Exists ''tools/Qsaharaserver.exe'',
         Print Stdout (Localised ''device_upload_programmer''),
         Spawn [''tools/Qsaharaserver.exe'', ''-p'', [CHR 0x5C, CHR 0x5C, CHR ''.'', CHR 0x5C] @ ''COM7'',
                ''-s'', ''13:image/xbl_s_devprg_ns.melf'']
           ''./tools;tools/dl;C:/Windows'' False,
         ChildWrites Stdout [],
         ChildWrites Stderr ''handshake failed'',
         Print Stderr (Literal (''Error executing command: tools/Qsaharaserver.exe -p ''
           @ [CHR 0x5C, CHR 0x5C, CHR ''.'', CHR 0x5C] @ ''COM7 -s 13:image/xbl_s_devprg_ns.melf'')),
         Print Stderr (Literal ''Return code: 1''),
         Print Stderr (Localised ''device_fatal_programmer''),
         Print Stderr (Localised ''device_fatal_causes''),
         Print Stderr (Localised ''device_cause_1''),
         Print Stderr (Localised ''device_cause_2''),
         Print Stderr (Localised ''device_cause_3'')]\<rparr>)"
  using edl_rawprogram_stops_when_upload_fails
      [where k = example_constants and c = example_controller and loader_path = example_loader
         and memory_type = "''UFS''" and raw_xmls = "[mk_path ''image'' ''rawprogram0.xml'']"
         and patch_xmls = "[mk_path ''image'' ''patch0.xml'']" and port = "''COM7''"
         and w = sahara_fails
         and w_tools = "snd (edl_rawprogram_tools example_constants sahara_fails)"
         and a = "Raise (CalledProcessError 1 None None)"
         and w_load = "snd (load_firehose_programmer example_constants example_controller example_loader
                     ''COM7'' (emit (Print Stdout (Localised ''device_step1_load''))
                       (snd (edl_rawprogram_tools example_constants sahara_fails))))"]
  by (simp add: edl_rawprogram_tools_def load_firehose_programmer_def
      cmd_sahara_def port_str_def eval_defs sahara_fails_def example_defs example_loader_def
      str_int_def str_nat.simps)

text \<open>When the upload succeeds, step 2 does run: the two commands of a flash plan.\<close>

lemma edl_rawprogram_example_run:
  "fst (edl_rawprogram example_constants example_controller example_loader ''UFS''
     [mk_path ''image'' ''rawprogram0.xml'', mk_path ''image'' ''rawprogram1.xml'']
     [mk_path ''image'' ''patch0.xml''] ''COM7'' example_world) = Inr ()
   \<and> spawned (snd (edl_rawprogram example_constants example_controller example_loader ''UFS''
     [mk_path ''image'' ''rawprogram0.xml'', mk_path ''image'' ''rawprogram1.xml'']
     [mk_path ''image'' ''patch0.xml''] ''COM7'' example_world))
     = [[''tools/Qsaharaserver.exe'', ''-p'', [CHR 0x5C, CHR 0x5C, CHR ''.'', CHR 0x5C] @ ''COM7'',
         ''-s'', ''13:image/xbl_s_devprg_ns.melf''],
        [''tools/fh_loader.exe'',
         ''--port='' @ [CHR 0x5C, CHR 0x5C, CHR ''.'', CHR 0x5C] @ ''COM7'',
         ''--search_path=image'',
         ''--sendxml=rawprogram0.xml,rawprogram1.xml'',
         ''--sendxml=patch0.xml'',
         ''--setactivepartition=1'',
         ''--memoryname=UFS'',
         ''--showpercentagecomplete'',
         ''--zlpawarehost=1'',
         ''--noprompt'']]"
  by (simp add: edl_rawprogram_def edl_rawprogram_tools_def load_firehose_programmer_def
      cmd_sahara_def cmd_fh_def port_str_def eval_defs example_defs example_loader_def spawned_def)

subsection \<open>\<^verbatim>\<open>setup_edl_connection\<close>\<close>

lemma lang_does_not_bind: "\<not> binds wait_for_files_params 3 [''lang'']"
  by (simp add: binds_def wait_for_files_params_def)

lemma call_wait_for_files_lang:
  "call_wait_for_files directory required_files prompt_message [''lang''] w
     = Some (Inl (Raise TypeError), w)"
  by (simp add: call_wait_for_files_def lang_does_not_bind lift_def throw_def)

lemma setup_edl_connection_eq:
  "setup_edl_connection k c w =
     (case setup_edl_reboot k c w of
        (Inl a, w_reboot) \<Rightarrow> Some (Inl a, w_reboot)
      | (Inr u, w_reboot) \<Rightarrow>
          Some (Inl (case mkdir_oracle w_reboot (count is_Mkdir w_reboot) (path_str (IMAGE_DIR k)) of
                       Some e \<Rightarrow> Raise e
                     | None \<Rightarrow> Raise TypeError),
                emit (Mkdir (path_str (IMAGE_DIR k)))
                  (emit (Print Stdout (Localised ''device_wait_loader_title'')) w_reboot)))"
  by (simp add: setup_edl_connection_def call_wait_for_files_lang mkdir_exist_ok_def pbind_def
      lift_def io_defs split: prod.splits sum.splits option.splits)

text \<open>
  C3. The call of line 270 passes the keyword \<^verbatim>\<open>lang\<close>, which \<^verbatim>\<open>wait_for_files\<close> has no
  parameter for, so the call does not bind. Whatever the surroundings do,
  \<^verbatim>\<open>setup_edl_connection\<close> never returns a port (nor a controller that holds one): it
  ends, and with an exception. When the steps before the call (the reboot-or-skip of lines
  249 to 260 and the \<^verbatim>\<open>mkdir\<close> of line 269) go through, the exception is the
  \<^verbatim>\<open>TypeError\<close> of the call, and the trace ends at the \<^verbatim>\<open>mkdir\<close>: the body of
  \<^verbatim>\<open>wait_for_files\<close> and \<^verbatim>\<open>wait_for_edl\<close> are never reached. Otherwise it is the
  exception of the step that failed.
\<close>

theorem setup_edl_connection_never_returns:
  "\<not> binds wait_for_files_params 3 [''lang'']
   \<and> (\<forall>port c' w'. setup_edl_connection k c w \<noteq> Some (Inr (port, c'), w'))
   \<and> setup_edl_connection k c w =
     (case setup_edl_reboot k c w of
        (Inl a, w_reboot) \<Rightarrow> Some (Inl a, w_reboot)
      | (Inr u, w_reboot) \<Rightarrow>
          Some (Inl (case mkdir_oracle w_reboot (count is_Mkdir w_reboot) (path_str (IMAGE_DIR k)) of
                       Some e \<Rightarrow> Raise e
                     | None \<Rightarrow> Raise TypeError),
                emit (Mkdir (path_str (IMAGE_DIR k)))
                  (emit (Print Stdout (Localised ''device_wait_loader_title'')) w_reboot)))"
proof -
  have "setup_edl_connection k c w \<noteq> Some (Inr (port, c'), w')" for port c' w'
    by (simp add: setup_edl_connection_eq split: prod.splits sum.splits)
  then show ?thesis
    using lang_does_not_bind setup_edl_connection_eq by blast
qed

lemma setup_edl_reboot_detected:
  "nth_edl_check w (count is_Comports w) = Some p \<Longrightarrow> p \<noteq> [] \<Longrightarrow>
   setup_edl_reboot k c w =
     (Inr (), emit (Print Stdout (Localised ''device_already_edl'')) (emit Comports w))"
  by (simp add: setup_edl_reboot_def check_edl_device_silent io_defs)

text \<open>
  C6. When the enumeration at entry shows an EDL device (the check returns a port that is
  not the empty string), \<^verbatim>\<open>setup_edl_connection\<close> runs no command at all, so no reboot
  command: between entry and the exception it ends with, the trace holds the
  enumeration, two messages and the \<^verbatim>\<open>mkdir\<close>. This holds at every entry in that state,
  so also at each of several calls in a row.
\<close>

theorem setup_edl_connection_skips_reboot:
  assumes "nth_edl_check w (count is_Comports w) = Some p" and "p \<noteq> []"
  shows "\<exists>a w'. setup_edl_connection k c w = Some (Inl a, w')
       \<and> trace w' = trace w @
           [Comports,
            Print Stdout (Localised ''device_already_edl''),
            Print Stdout (Localised ''device_wait_loader_title''),
            Mkdir (path_str (IMAGE_DIR k))]
       \<and> spawned w' = spawned w"
  using assms
  by (simp add: setup_edl_connection_eq setup_edl_reboot_detected)


theorem setup_edl_connection_never_returns_witness:
  "outcome (setup_edl_connection example_constants example_controller example_world)
     = Some (Inl (Raise TypeError))
   \<and> final_trace (setup_edl_connection example_constants example_controller example_world) =
     [Comports,
      Print Stdout (Localised ''device_wait_adb_title''),
      Print Stdout (Localised ''device_enable_usb_debug''),
      Print Stdout (Localised ''device_usb_prompt_appear''),
      Print Stdout (Localised ''device_check_always_allow''),
      Spawn [''tools/dl/platform-tools/adb.exe'', ''wait-for-device''] ''./tools;tools/dl;C:/Windows'' False,
      ChildWrites Stdout [],
      ChildWrites Stderr [],
      Print Stdout (Localised ''device_adb_connected''),
      Print Stdout (Localised ''device_edl_setup_title''),
      Print Stdout (Localised ''device_wait_adb_title''),
      Print Stdout (Localised ''device_enable_usb_debug''),
      Print Stdout (Localised ''device_usb_prompt_appear''),
      Print Stdout (Localised ''device_check_always_allow''),
      Spawn [''tools/dl/platform-tools/adb.exe'', ''wait-for-device''] ''./tools;tools/dl;C:/Windows'' False,
      ChildWrites Stdout [],
      ChildWrites Stderr [],
      Print Stdout (Localised ''device_adb_connected''),
      Print Stdout (Localised ''device_reboot_edl_adb''),
      Spawn [''tools/dl/platform-tools/adb.exe'', ''reboot'', ''edl''] ''./tools;tools/dl;C:/Windows'' False,
      ChildWrites Stdout [],
      ChildWrites Stderr [],
      Print Stdout (Localised ''device_reboot_edl_sent''),
      Print Stdout (Localised ''device_wait_10s_edl''),
      Sleep 10,
      Print Stdout (Localised ''device_wait_loader_title''),
      Mkdir ''./image'']"
  using setup_edl_connection_never_returns
      [where k = example_constants and c = example_controller and w = example_world,
       THEN conjunct2, THEN conjunct2]
  by (simp add: outcome_def final_trace_def setup_edl_reboot_def check_edl_device_def
      wait_for_adb_def reboot_to_edl_def eval_defs example_defs)

theorem setup_edl_connection_skips_reboot_witness:
  "\<exists>a w'. setup_edl_connection example_constants example_controller edl_connected = Some (Inl a, w')
       \<and> trace w' =
           [Comports,
            Print Stdout (Localised ''device_already_edl''),
            Print Stdout (Localised ''device_wait_loader_title''),
            Mkdir ''./image'']
       \<and> spawned w' = []"
  using setup_edl_connection_skips_reboot
      [where k = example_constants and c = example_controller and w = edl_connected
         and p = "''COM7''"]
  by (simp add: nth_edl_check_def edl_connected_def example_defs count_def spawned_def
      adb_port_def com7_port_def is_qualcomm_port_def upper_def upper_char_def)

subsection \<open>\<^verbatim>\<open>get_fastboot_vars\<close>\<close>






subsection \<open>The active slot\<close>












end
